theory Spec2Isabelle
  imports Complex_Main "HOL-Library.Multiset" "HOL-Library.Option_ord" "HOL-Library.Log_Nat"
begin

section \<open>The exam flow of the MCQ platform (routes/exam.js over database/db.js)\<close>

text \<open>
  The development embeds the request handlers of \<^verbatim>\<open>src/routes/exam.js\<close>
  (\<^verbatim>\<open>POST /start\<close>, \<^verbatim>\<open>POST /answer\<close>, \<^verbatim>\<open>POST /submit\<close>,
  \<^verbatim>\<open>GET /result/:sessionToken\<close>, \<^verbatim>\<open>GET /leaderboard/:examCode\<close>) as functions
  over an explicit database value, with the synchronous \<^verbatim>\<open>get\<close>/\<^verbatim>\<open>run\<close>/\<^verbatim>\<open>all\<close> of
  \<^verbatim>\<open>src/database/db.js\<close> (sql.js). A table is the list of its rows in row order; a
  parameterised statement of the handlers is the list operation it denotes:
  \<^verbatim>\<open>db.get\<close> is \<open>find\<close> (the first row or \<open>None\<close>), \<^verbatim>\<open>UPDATE ... WHERE\<close> is a
  \<open>map\<close> that rewrites the matching rows, \<^verbatim>\<open>INSERT\<close> appends a row.

  Conventions of the embedding:
  \<^item> numbers are rationals (\<open>rat\<close>); a stored \<^verbatim>\<open>REAL\<close> value and SQLite's \<^verbatim>\<open>SUM\<close> are
    exact, and the JavaScript arithmetic of the percentage is IEEE-754 binary64, each
    operation rounded to the nearest double (\<open>to_double\<close>);
  \<^item> a nullable column is an \<open>option\<close>, \<open>None\<close> for \<^verbatim>\<open>NULL\<close>;
  \<^item> \<^verbatim>\<open>datetime('now')\<close> is a parameter \<open>now\<close>, a natural number whose order is the
    order of the \<^verbatim>\<open>YYYY-MM-DD HH:MM:SS\<close> texts SQLite produces and compares;
  \<^item> \<^verbatim>\<open>uuidv4()\<close> is a parameter \<open>uuid\<close>;
  \<^item> a field of a JSON request body is a \<open>string option\<close>, \<open>None\<close> when it is absent
    or \<^verbatim>\<open>null\<close>;
  \<^item> strings are byte strings; \<^verbatim>\<open>toUpperCase\<close>, \<^verbatim>\<open>toLowerCase\<close>, \<^verbatim>\<open>trim\<close> and
    the class \<^verbatim>\<open>\s\<close> are modelled on ASCII;
  \<^item> the columns \<open>id\<close> and \<open>exam_id\<close> occur in several tables, so they carry the
    table's initial (\<open>e_id\<close>, \<open>q_id\<close>, \<open>q_exam_id\<close>, \<open>c_id\<close>, \<open>c_exam_id\<close>, \<open>r_id\<close>);
    every other column keeps its name.
\<close>

subsection \<open>Strings\<close>

definition lower_letters :: string where
  "lower_letters = ''abcdefghijklmnopqrstuvwxyz''"

definition upper_letters :: string where
  "upper_letters = ''ABCDEFGHIJKLMNOPQRSTUVWXYZ''"

definition toUpperCase_char :: "char \<Rightarrow> char" where
  "toUpperCase_char c =
     (case map_of (zip lower_letters upper_letters) c of Some u \<Rightarrow> u | None \<Rightarrow> c)"

definition toLowerCase_char :: "char \<Rightarrow> char" where
  "toLowerCase_char c =
     (case map_of (zip upper_letters lower_letters) c of Some l \<Rightarrow> l | None \<Rightarrow> c)"

definition toUpperCase :: "string \<Rightarrow> string" where
  "toUpperCase s = map toUpperCase_char s"

definition toLowerCase :: "string \<Rightarrow> string" where
  "toLowerCase s = map toLowerCase_char s"

text \<open>The ASCII members of \<^verbatim>\<open>\s\<close>: tab, line feed, vertical tab, form feed, carriage
  return and space.\<close>

definition isWhiteSpace :: "char \<Rightarrow> bool" where
  "isWhiteSpace c =
     (c \<in> set [CHR 0x09, CHR 0x0A, CHR 0x0B, CHR 0x0C, CHR 0x0D, CHR '' ''])"

definition trim :: "string \<Rightarrow> string" where
  "trim s = rev (dropWhile isWhiteSpace (rev (dropWhile isWhiteSpace s)))"

text \<open>
  \<^verbatim>\<open>/^[^\s@]+@[^\s@]+\.[^\s@]+$/.test(email)\<close>: the text is \<open>local @ domain\<close> with
  exactly one \<open>@\<close> and no white space, a non-empty local part, and a dot in the domain
  that is neither its first nor its last character.
\<close>

definition emailRegex_test :: "string \<Rightarrow> bool" where
  "emailRegex_test s =
     (let local_part = takeWhile (\<lambda>c. c \<noteq> CHR ''@'') s;
          rest = dropWhile (\<lambda>c. c \<noteq> CHR ''@'') s
      in local_part \<noteq> [] \<and> rest \<noteq> [] \<and>
         list_all (\<lambda>c. \<not> isWhiteSpace c) s \<and>
         CHR ''@'' \<notin> set (tl rest) \<and>
         CHR ''.'' \<in> set (butlast (tl (tl rest))))"

text \<open>JavaScript truthiness of a body field: absent, \<^verbatim>\<open>null\<close> and the empty string are
  falsy.\<close>

definition truthy :: "string option \<Rightarrow> bool" where
  "truthy v = (case v of None \<Rightarrow> False | Some s \<Rightarrow> s \<noteq> [])"

subsection \<open>The tables (database/db.js, \<^verbatim>\<open>CREATE TABLE\<close>)\<close>

record exam =
  e_id :: nat
  title :: string
  exam_code :: string
  duration_minutes :: int
  negative_marking :: rat
  result_mode :: string
  allow_back_navigation :: int
  shuffle_questions :: int
  prevent_duplicate_attempts :: int
  is_active :: int
  results_published :: int

record question =
  q_id :: nat
  q_exam_id :: nat
  correct_option :: string
  marks :: int
  question_order :: "int option"

record candidate =
  c_id :: nat
  name :: string
  email :: string
  c_exam_id :: nat
  session_token :: string
  start_time :: nat
  end_time :: "nat option"
  score :: "rat option"
  total_marks :: int
  is_submitted :: int

record response =
  r_id :: nat
  candidate_id :: nat
  question_id :: nat
  selected_option :: "string option"
  is_correct :: int
  marks_obtained :: rat
  answered_at :: nat

text \<open>\<open>candidates_seq\<close> and \<open>responses_seq\<close> are the \<^verbatim>\<open>AUTOINCREMENT\<close> counters: the
  largest row id the table has ever held.\<close>

record database =
  exams :: "exam list"
  questions :: "question list"
  candidates :: "candidate list"
  responses :: "response list"
  candidates_seq :: nat
  responses_seq :: nat

definition next_rowid :: "nat \<Rightarrow> nat list \<Rightarrow> nat" where
  "next_rowid seq ids = Suc (fold max ids seq)"

text \<open>The cookie session of express-session, as far as the handlers use it.\<close>

record session =
  candidateId :: "nat option"
  sessionToken :: "string option"

text \<open>
  The failure replies of the handlers, named after the error kinds of the specification;
  the route and the status it sends are:
  \<open>MissingFields\<close> 400 (start), \<open>InvalidEmail\<close> 400 (start), \<open>ExamNotFound\<close> 404
  (start: invalid code or inactive; leaderboard: unknown code), \<open>DuplicateAttempt\<close> 400,
  \<open>SessionExpired\<close> 401 (no candidate id in the session), \<open>InvalidSession\<close> 400
  (``Invalid session or exam already submitted''), \<open>InvalidQuestion\<close> 400,
  \<open>ResultNotFound\<close> 404, \<open>NotSubmitted\<close> 400, \<open>LeaderboardUnavailable\<close> 403,
  \<open>ServerError\<close> 500 (the \<^verbatim>\<open>catch\<close> blocks).
\<close>

datatype error =
    MissingFields | InvalidEmail | ExamNotFound | DuplicateAttempt
  | SessionExpired | InvalidSession | InvalidQuestion
  | ResultNotFound | NotSubmitted | LeaderboardUnavailable | ServerError

subsection \<open>POST /answer\<close>

text \<open>
  Lines 184--194. \<open>isCorrect\<close> is the truth value of
  \<^verbatim>\<open>selectedOption && selectedOption.toUpperCase() === question.correct_option\<close>.
  \<open>marksObtained\<close> is \<open>None\<close> where the handler throws: \<^verbatim>\<open>exam.negative_marking\<close> is
  read only for a selected, incorrect option, and \<^verbatim>\<open>exam\<close> is \<^verbatim>\<open>null\<close> when the
  candidate's exam row is missing.
\<close>

definition isCorrect :: "question \<Rightarrow> string option \<Rightarrow> bool" where
  "isCorrect question selectedOption =
     (truthy selectedOption \<and> toUpperCase (the selectedOption) = correct_option question)"

definition marksObtained :: "exam option \<Rightarrow> question \<Rightarrow> string option \<Rightarrow> rat option" where
  "marksObtained exam question selectedOption =
     (if truthy selectedOption then
        if isCorrect question selectedOption then Some (of_int (marks question))
        else (case exam of
                None \<Rightarrow> None
              | Some e \<Rightarrow> if negative_marking e > 0 then Some (- negative_marking e) else Some 0)
      else Some 0)"

text \<open>\<^verbatim>\<open>selectedOption || null\<close>\<close>

definition or_null :: "string option \<Rightarrow> string option" where
  "or_null v = (if truthy v then v else None)"

text \<open>
  Lines 196--209, the upsert: where a row of the pair exists the \<^verbatim>\<open>UPDATE\<close> rewrites
  every row of the pair, otherwise the \<^verbatim>\<open>INSERT\<close> appends one, whose \<open>answered_at\<close>
  takes its default \<^verbatim>\<open>CURRENT_TIMESTAMP\<close>. The written values are
  \<^verbatim>\<open>[selectedOption || null, isCorrect ? 1 : 0, marksObtained]\<close>.
\<close>

definition save_response ::
  "database \<Rightarrow> nat \<Rightarrow> nat \<Rightarrow> string option \<Rightarrow> bool \<Rightarrow> rat \<Rightarrow> nat \<Rightarrow> database"
where
  "save_response db cid questionId selectedOption correct m now =
     (case find (\<lambda>r. candidate_id r = cid \<and> question_id r = questionId) (responses db) of
        Some existingResponse \<Rightarrow>
          db\<lparr>responses :=
               map (\<lambda>r. if candidate_id r = cid \<and> question_id r = questionId
                         then r\<lparr>selected_option := or_null selectedOption,
                                is_correct := (if correct then 1 else 0),
                                marks_obtained := m,
                                answered_at := now\<rparr>
                         else r)
                   (responses db)\<rparr>
      | None \<Rightarrow>
          (let rid = next_rowid (responses_seq db) (map r_id (responses db))
           in db\<lparr>responses :=
                    responses db @
                      [\<lparr>r_id = rid, candidate_id = cid, question_id = questionId,
                        selected_option = or_null selectedOption,
                        is_correct = (if correct then 1 else 0),
                        marks_obtained = m,
                        answered_at = now\<rparr>],
                  responses_seq := rid\<rparr>))"

definition answer ::
  "database \<Rightarrow> session \<Rightarrow> nat \<Rightarrow> nat \<Rightarrow> string option \<Rightarrow> database \<times> session \<times> (error + unit)"
where
  "answer db sess now questionId selectedOption =
     (case candidateId sess of
        None \<Rightarrow> (db, sess, Inl SessionExpired)
      | Some cid \<Rightarrow>
          if cid = 0 then (db, sess, Inl SessionExpired)
          else
            (case find (\<lambda>c. c_id c = cid \<and> is_submitted c = 0) (candidates db) of
               None \<Rightarrow> (db, sess, Inl InvalidSession)
             | Some candidate \<Rightarrow>
                 (case find (\<lambda>q. q_id q = questionId \<and> q_exam_id q = c_exam_id candidate)
                         (questions db) of
                    None \<Rightarrow> (db, sess, Inl InvalidQuestion)
                  | Some question \<Rightarrow>
                      (case marksObtained (find (\<lambda>e. e_id e = c_exam_id candidate) (exams db))
                              question selectedOption of
                         None \<Rightarrow> (db, sess, Inl ServerError)
                       | Some m \<Rightarrow>
                           (save_response db cid questionId selectedOption
                              (isCorrect question selectedOption) m now,
                            sess, Inr ())))))"

subsection \<open>POST /submit\<close>

text \<open>
  \<open>total_score\<close> is \<^verbatim>\<open>SELECT COALESCE(SUM(marks_obtained), 0) FROM responses WHERE
  candidate_id = ?\<close>; the handler stores \<^verbatim>\<open>Math.max(0, total_score || 0)\<close> and
  clears the cookie session.
\<close>

definition total_score :: "database \<Rightarrow> nat \<Rightarrow> rat" where
  "total_score db cid =
     sum_list (map marks_obtained (filter (\<lambda>r. candidate_id r = cid) (responses db)))"

definition submit :: "database \<Rightarrow> session \<Rightarrow> nat \<Rightarrow> database \<times> session \<times> (error + unit)" where
  "submit db sess now =
     (case candidateId sess of
        None \<Rightarrow> (db, sess, Inl SessionExpired)
      | Some cid \<Rightarrow>
          if cid = 0 then (db, sess, Inl SessionExpired)
          else
            (case find (\<lambda>c. c_id c = cid \<and> is_submitted c = 0) (candidates db) of
               None \<Rightarrow> (db, sess, Inl InvalidSession)
             | Some candidate \<Rightarrow>
                 (let final_score = max 0 (total_score db cid)
                  in (db\<lparr>candidates :=
                            map (\<lambda>c. if c_id c = cid
                                      then c\<lparr>is_submitted := 1, end_time := Some now,
                                             score := Some final_score\<rparr>
                                      else c)
                                (candidates db)\<rparr>,
                      \<lparr>candidateId = None, sessionToken = None\<rparr>, Inr ()))))"

subsection \<open>POST /start\<close>

record start_reply =
  sr_sessionToken :: string
  sr_examTitle :: string
  sr_examCode :: string
  sr_duration :: int
  sr_allowBackNavigation :: int
  sr_resultMode :: string
  sr_startTime :: nat

definition start_json :: "exam \<Rightarrow> string \<Rightarrow> candidate \<Rightarrow> start_reply" where
  "start_json exam token candidate =
     \<lparr>sr_sessionToken = token, sr_examTitle = title exam, sr_examCode = exam_code exam,
      sr_duration = duration_minutes exam,
      sr_allowBackNavigation = allow_back_navigation exam,
      sr_resultMode = result_mode exam, sr_startTime = start_time candidate\<rparr>"

text \<open>\<^verbatim>\<open>email.trim().toLowerCase()\<close>, the key of both candidate look-ups and the value
  stored in a new row.\<close>

definition email_key :: "string \<Rightarrow> string" where
  "email_key body_email = toLowerCase (trim body_email)"

definition submitted_session :: "database \<Rightarrow> exam \<Rightarrow> string \<Rightarrow> candidate option" where
  "submitted_session db exam body_email =
     find (\<lambda>c. c_exam_id c = e_id exam \<and> email c = email_key body_email \<and> is_submitted c = 1)
       (candidates db)"

definition ongoing_session :: "database \<Rightarrow> exam \<Rightarrow> string \<Rightarrow> candidate option" where
  "ongoing_session db exam body_email =
     find (\<lambda>c. c_exam_id c = e_id exam \<and> email c = email_key body_email \<and> is_submitted c = 0)
       (candidates db)"

text \<open>
  The \<^verbatim>\<open>INSERT INTO candidates\<close> of the create branch. The column \<open>session_token\<close> is
  \<^verbatim>\<open>UNIQUE\<close>: where the token is taken the statement throws and the result is \<open>None\<close>.
  \<open>end_time\<close> and \<open>score\<close> stay \<^verbatim>\<open>NULL\<close>, \<open>is_submitted\<close> takes its default 0.
\<close>

definition insert_candidate ::
  "database \<Rightarrow> string \<Rightarrow> string \<Rightarrow> nat \<Rightarrow> string \<Rightarrow> nat \<Rightarrow> int \<Rightarrow> database option"
where
  "insert_candidate db body_name body_email exam_id uuid now totalMarks =
     (if uuid \<in> set (map session_token (candidates db)) then None
      else
        (let cid = next_rowid (candidates_seq db) (map c_id (candidates db))
         in Some (db\<lparr>candidates :=
                       candidates db @
                         [\<lparr>c_id = cid, name = trim body_name, email = email_key body_email,
                           c_exam_id = exam_id, session_token = uuid, start_time = now,
                           end_time = None, score = None, total_marks = totalMarks,
                           is_submitted = 0\<rparr>],
                     candidates_seq := cid\<rparr>)))"

text \<open>The handler from the exam look-up on (lines 21--85), for body fields that have
  passed the two checks of lines 11--19.\<close>

definition start_session ::
  "database \<Rightarrow> session \<Rightarrow> nat \<Rightarrow> string \<Rightarrow> string \<Rightarrow> string \<Rightarrow> string \<Rightarrow>
   database \<times> session \<times> (error + start_reply)"
where
  "start_session db sess now uuid body_name body_email body_exam_code =
     (case find (\<lambda>e. exam_code e = toUpperCase body_exam_code \<and> is_active e = 1)
             (exams db) of
        None \<Rightarrow> (db, sess, Inl ExamNotFound)
      | Some exam \<Rightarrow>
          if prevent_duplicate_attempts exam \<noteq> 0 \<and>
             submitted_session db exam body_email \<noteq> None
          then (db, sess, Inl DuplicateAttempt)
          else
            (case ongoing_session db exam body_email of
               Some ongoingSession \<Rightarrow>
                 (db,
                  \<lparr>candidateId = Some (c_id ongoingSession),
                   sessionToken = Some (session_token ongoingSession)\<rparr>,
                  Inr (start_json exam (session_token ongoingSession) ongoingSession))
             | None \<Rightarrow>
                 (let totalMarks =
                        sum_list (map marks
                          (filter (\<lambda>q. q_exam_id q = e_id exam) (questions db)))
                  in case insert_candidate db body_name body_email (e_id exam)
                            uuid now totalMarks of
                       None \<Rightarrow> (db, sess, Inl ServerError)
                     | Some db' \<Rightarrow>
                         (case find (\<lambda>c. session_token c = uuid) (candidates db') of
                            None \<Rightarrow> (db', sess, Inl ServerError)
                          | Some candidate \<Rightarrow>
                              (db',
                               \<lparr>candidateId = Some (c_id candidate),
                                sessionToken = Some uuid\<rparr>,
                               Inr (start_json exam uuid candidate))))))"

definition start ::
  "database \<Rightarrow> session \<Rightarrow> nat \<Rightarrow> string \<Rightarrow> string option \<Rightarrow> string option \<Rightarrow> string option \<Rightarrow>
   database \<times> session \<times> (error + start_reply)"
where
  "start db sess now uuid body_name body_email body_exam_code =
     (if \<not> truthy body_name \<or> \<not> truthy body_email \<or> \<not> truthy body_exam_code
      then (db, sess, Inl MissingFields)
      else if \<not> emailRegex_test (the body_email) then (db, sess, Inl InvalidEmail)
      else start_session db sess now uuid
             (the body_name) (the body_email) (the body_exam_code))"

subsection \<open>GET /result/:sessionToken\<close>

text \<open>
  JavaScript numbers are IEEE-754 binary64. \<open>to_double x\<close> is the double nearest to the
  rational \<open>x\<close>, ties to the even significand: the significand has 53 bits, so the unit
  in the last place is \<open>2 ^ (binade \<bar>x\<bar> - 52)\<close>, where \<open>binade a\<close> is the integer \<open>k\<close> with
  \<open>2 ^ k \<le> a < 2 ^ (k + 1)\<close>, and never less than \<open>2 ^ - 1074\<close> (the subnormal range).
  A double is represented by the rational it denotes. The largest double is not modelled:
  an overflow to \<^verbatim>\<open>Infinity\<close> needs a quotient beyond \<open>10 ^ 306\<close>.
\<close>

definition pow2 :: "int \<Rightarrow> rat" where
  "pow2 e = (if 0 \<le> e then 2 ^ nat e else 1 / 2 ^ nat (- e))"

definition binade :: "rat \<Rightarrow> int" where
  "binade a = (if 1 \<le> a then bitlen \<lfloor>a\<rfloor> - 1 else - bitlen (\<lceil>1 / a\<rceil> - 1))"

definition round_half_even :: "rat \<Rightarrow> int" where
  "round_half_even y =
     (let n = \<lfloor>y\<rfloor>; r = y - of_int n
      in if r < 1 / 2 then n else if 1 / 2 < r then n + 1 else if even n then n else n + 1)"

definition to_double :: "rat \<Rightarrow> rat" where
  "to_double x =
     (if x = 0 then 0
      else (let a = \<bar>x\<bar>; e = max (binade a - 52) (- 1074)
            in sgn x * of_int (round_half_even (a / pow2 e)) * pow2 e))"

text \<open>The operators \<^verbatim>\<open>/\<close> and \<^verbatim>\<open>*\<close> on doubles: the exact result, rounded. (A zero divisor
  does not reach \<open>js_div\<close>: the handlers divide under the guard \<^verbatim>\<open>total_marks > 0\<close>.)\<close>

definition js_div :: "rat \<Rightarrow> rat \<Rightarrow> rat" where
  "js_div a b = to_double (a / b)"

definition js_mul :: "rat \<Rightarrow> rat \<Rightarrow> rat" where
  "js_mul a b = to_double (a * b)"

text \<open>
  \<^verbatim>\<open>x.toFixed(2)\<close> yields the decimal text of \<open>n / 100\<close> for the integer \<open>n\<close> that
  makes \<open>n / 100 - x\<close> closest to zero, the larger \<open>n\<close> on a tie, after the sign is set
  aside; \<open>x\<close> is the exact value of the double. The text is represented by the number it
  denotes. \<open>js_number\<close> is the JavaScript number a column value becomes in an arithmetic
  expression: \<^verbatim>\<open>null\<close> counts as 0, a number is a double.
\<close>

definition toFixed2 :: "rat \<Rightarrow> rat" where
  "toFixed2 x =
     (if x < 0 then - (of_int \<lfloor>- x * 100 + 1 / 2\<rfloor> / 100)
      else of_int \<lfloor>x * 100 + 1 / 2\<rfloor> / 100)"

definition js_number :: "rat option \<Rightarrow> rat" where
  "js_number v = (case v of None \<Rightarrow> 0 | Some x \<Rightarrow> to_double x)"

text \<open>\<^verbatim>\<open>c.total_marks > 0 ? ((c.score / c.total_marks) * 100).toFixed(2) : 0\<close>\<close>

definition percentage_of :: "candidate \<Rightarrow> rat" where
  "percentage_of c =
     (if total_marks c > 0
      then toFixed2 (js_mul (js_div (js_number (score c))
                               (to_double (of_int (total_marks c)))) 100)
      else 0)"

record result_view =
  rv_name :: string
  rv_examTitle :: string
  rv_score :: "rat option"
  rv_totalMarks :: int
  rv_percentage :: rat

datatype result_reply = CanView result_view | CannotView string

definition canView :: "result_reply \<Rightarrow> bool" where
  "canView r = (case r of CanView v \<Rightarrow> True | CannotView m \<Rightarrow> False)"

text \<open>The \<^verbatim>\<open>switch\<close> on \<open>result_mode\<close>: the pair of \<open>canViewResult\<close> and \<open>message\<close>.\<close>

definition result_switch :: "exam \<Rightarrow> bool \<times> string" where
  "result_switch e =
     (if result_mode e = ''private'' then (True, [])
      else if result_mode e = ''public'' then (True, [])
      else if result_mode e = ''after_publish'' then
        (if results_published e = 1 then (True, [])
         else (False, ''Results will be published by the administrator''))
      else (False, ''Results are only visible to the administrator''))"

text \<open>\<^verbatim>\<open>SELECT c.*, e.title, e.result_mode, e.results_published FROM candidates c JOIN
  exams e ON c.exam_id = e.id WHERE c.session_token = ?\<close>: the joined rows, of which
  \<^verbatim>\<open>db.get\<close> takes the first.\<close>

definition result_rows :: "database \<Rightarrow> string \<Rightarrow> (candidate \<times> exam) list" where
  "result_rows db token =
     [(c, e). c \<leftarrow> candidates db, e \<leftarrow> exams db,
              c_exam_id c = e_id e, session_token c = token]"

definition result :: "database \<Rightarrow> string \<Rightarrow> error + result_reply" where
  "result db token =
     (case result_rows db token of
        [] \<Rightarrow> Inl ResultNotFound
      | (c, e) # rows \<Rightarrow>
          if is_submitted c = 0 then Inl NotSubmitted
          else
            (case result_switch e of
               (canViewResult, message) \<Rightarrow>
                 if canViewResult
                 then Inr (CanView \<lparr>rv_name = name c, rv_examTitle = title e,
                                    rv_score = score c, rv_totalMarks = total_marks c,
                                    rv_percentage = percentage_of c\<rparr>)
                 else Inr (CannotView message)))"

subsection \<open>GET /leaderboard/:examCode\<close>

text \<open>
  \<^verbatim>\<open>ORDER BY score DESC, end_time ASC\<close>: \<open>leaderboard_order a b\<close> holds when row \<open>a\<close> may
  stand before row \<open>b\<close>. SQLite orders \<^verbatim>\<open>NULL\<close> below every value, as the order on
  \<open>option\<close> does with \<open>None\<close>. \<open>order_by\<close> is a stable insertion sort: SQL leaves the
  order of rows with equal keys open, and the model keeps them in row order.
\<close>

definition leaderboard_order :: "candidate \<Rightarrow> candidate \<Rightarrow> bool" where
  "leaderboard_order a b =
     (score b < score a \<or> (score a = score b \<and> end_time a \<le> end_time b))"

fun insert_row :: "('a \<Rightarrow> 'a \<Rightarrow> bool) \<Rightarrow> 'a \<Rightarrow> 'a list \<Rightarrow> 'a list" where
  "insert_row precedes x [] = [x]"
| "insert_row precedes x (y # ys) =
     (if precedes x y then x # y # ys else y # insert_row precedes x ys)"

fun order_by :: "('a \<Rightarrow> 'a \<Rightarrow> bool) \<Rightarrow> 'a list \<Rightarrow> 'a list" where
  "order_by precedes [] = []"
| "order_by precedes (x # xs) = insert_row precedes x (order_by precedes xs)"

record leaderboard_entry =
  le_rank :: nat
  le_name :: string
  le_score :: "rat option"
  le_totalMarks :: int
  le_percentage :: rat

record leaderboard_reply =
  lb_examTitle :: string
  lb_leaderboard :: "leaderboard_entry list"

definition leaderboard_rows :: "database \<Rightarrow> exam \<Rightarrow> candidate list" where
  "leaderboard_rows db exam =
     order_by leaderboard_order
       (filter (\<lambda>c. c_exam_id c = e_id exam \<and> is_submitted c = 1) (candidates db))"

text \<open>\<^verbatim>\<open>leaderboard.map((c, index) => ({rank: index + 1, ...}))\<close>\<close>

definition leaderboard_json :: "candidate list \<Rightarrow> leaderboard_entry list" where
  "leaderboard_json rows =
     map (\<lambda>(index, c). \<lparr>le_rank = index + 1, le_name = name c, le_score = score c,
                         le_totalMarks = total_marks c, le_percentage = percentage_of c\<rparr>)
       (enumerate 0 rows)"

definition leaderboard_available :: "exam \<Rightarrow> bool" where
  "leaderboard_available exam =
     (\<not> (result_mode exam \<noteq> ''public'' \<and>
         \<not> (result_mode exam = ''after_publish'' \<and> results_published exam \<noteq> 0)))"

definition leaderboard :: "database \<Rightarrow> string \<Rightarrow> error + leaderboard_reply" where
  "leaderboard db examCode =
     (case find (\<lambda>e. exam_code e = toUpperCase examCode) (exams db) of
        None \<Rightarrow> Inl ExamNotFound
      | Some exam \<Rightarrow>
          if \<not> leaderboard_available exam then Inl LeaderboardUnavailable
          else Inr \<lparr>lb_examTitle = title exam,
                    lb_leaderboard = leaderboard_json (leaderboard_rows db exam)\<rparr>)"

subsection \<open>POST /api/exams/:id/toggle-active (routes/api.js)\<close>

text \<open>The operator's switch of \<open>is_active\<close>, behind \<^verbatim>\<open>requireAdmin\<close>:
  \<^verbatim>\<open>UPDATE exams SET is_active = ? WHERE id = ?\<close> with \<^verbatim>\<open>exam.is_active ? 0 : 1\<close>; an
  unknown id is answered 404 and nothing is written.\<close>

definition toggle_active :: "database \<Rightarrow> nat \<Rightarrow> database" where
  "toggle_active db exam_id =
     (case find (\<lambda>e. e_id e = exam_id) (exams db) of
        None \<Rightarrow> db
      | Some exam \<Rightarrow>
          db\<lparr>exams :=
               map (\<lambda>e. if e_id e = exam_id
                         then e\<lparr>is_active := (if is_active exam \<noteq> 0 then 0 else 1)\<rparr>
                         else e)
                   (exams db)\<rparr>)"

subsection \<open>Predicates and example data of the statements\<close>

text \<open>\<open>answer_all\<close>: the requests \<^verbatim>\<open>POST /answer\<close> of one session for one question, one
  after the other, each a pair of its time and its selected option; a request that is
  refused leaves the database as it was and the next one is served.\<close>

fun answer_all ::
  "database \<Rightarrow> session \<Rightarrow> nat \<Rightarrow> (nat \<times> string option) list \<Rightarrow> database" where
  "answer_all db sess questionId [] = db"
| "answer_all db sess questionId ((now, selectedOption) # calls) =
     answer_all (fst (answer db sess now questionId selectedOption)) sess questionId calls"

text \<open>\<open>written_response\<close>: a row of the pair \<open>(cid, q)\<close> that holds exactly the values one
  \<^verbatim>\<open>POST /answer\<close> writes.\<close>

definition written_response ::
  "nat \<Rightarrow> nat \<Rightarrow> string option \<Rightarrow> bool \<Rightarrow> rat \<Rightarrow> nat \<Rightarrow> response \<Rightarrow> bool" where
  "written_response cid q sel k m now r =
     (candidate_id r = cid \<and> question_id r = q \<and> selected_option r = or_null sel \<and>
      is_correct r = (if k then 1 else 0) \<and> marks_obtained r = m \<and> answered_at r = now)"

text \<open>
  The scenario of the specification: exam \<open>Q1\<close> of 30 minutes with negative marking
  \<open>0.5\<close>, one question worth 2 marks whose correct option is \<open>C\<close>, and one candidate
  who has started.
\<close>

definition demo_exam :: exam where
  "demo_exam = \<lparr>e_id = 1, title = ''Quiz one'', exam_code = ''Q1'', duration_minutes = 30,
     negative_marking = 1/2, result_mode = ''after_publish'', allow_back_navigation = 1,
     shuffle_questions = 0, prevent_duplicate_attempts = 1, is_active = 1,
     results_published = 0\<rparr>"

definition demo_question :: question where
  "demo_question = \<lparr>q_id = 1, q_exam_id = 1, correct_option = ''C'', marks = 2,
     question_order = Some 1\<rparr>"

definition demo_candidate :: candidate where
  "demo_candidate = \<lparr>c_id = 1, name = ''Ann'', email = ''ann@example.com'', c_exam_id = 1,
     session_token = ''tok-1'', start_time = 100, end_time = None, score = None,
     total_marks = 2, is_submitted = 0\<rparr>"

definition demo_db :: database where
  "demo_db = \<lparr>exams = [demo_exam], questions = [demo_question],
     candidates = [demo_candidate], responses = [], candidates_seq = 1, responses_seq = 0\<rparr>"

definition demo_session :: session where
  "demo_session = \<lparr>candidateId = Some 1, sessionToken = Some ''tok-1''\<rparr>"


text \<open>The example after one wrong answer, \<open>A\<close> at time 130.\<close>

definition demo_wrong_db :: database where
  "demo_wrong_db = fst (answer demo_db demo_session 130 1 (Some ''A''))"

text \<open>The example after the submission at time 200, and the candidate's row then.\<close>

definition demo_submitted_db :: database where
  "demo_submitted_db = fst (submit demo_wrong_db demo_session 200)"

definition demo_submitted_candidate :: candidate where
  "demo_submitted_candidate =
     demo_candidate\<lparr>is_submitted := 1, end_time := Some 200, score := Some 0\<rparr>"

text \<open>
  A second exam with a public leaderboard: three submitted candidates with a total of 3
  marks (two of them tied on the score), one who has not submitted, and one submitted
  candidate whose total is 0.
\<close>

definition board_exam :: exam where
  "board_exam = \<lparr>e_id = 2, title = ''Finals'', exam_code = ''F2'', duration_minutes = 60,
     negative_marking = 0, result_mode = ''public'', allow_back_navigation = 1,
     shuffle_questions = 0, prevent_duplicate_attempts = 0, is_active = 1,
     results_published = 0\<rparr>"

definition board_row :: "nat \<Rightarrow> string \<Rightarrow> rat \<Rightarrow> int \<Rightarrow> nat \<Rightarrow> candidate" where
  "board_row i who points possible finished =
     \<lparr>c_id = i, name = who, email = who @ ''@example.com'', c_exam_id = 2,
      session_token = ''tok-'' @ who, start_time = 100, end_time = Some finished,
      score = Some points, total_marks = possible, is_submitted = 1\<rparr>"

definition board_db :: database where
  "board_db = \<lparr>exams = [demo_exam, board_exam], questions = [],
     candidates =
       [board_row 1 ''bea'' 2 3 600, board_row 2 ''cy'' 3 3 500, board_row 3 ''dan'' 2 3 400,
        (board_row 4 ''eve'' 0 3 0)\<lparr>end_time := None, score := None, is_submitted := 0\<rparr>,
        board_row 5 ''zed'' 0 0 450],
     responses = [], candidates_seq = 5, responses_seq = 0\<rparr>"

text \<open>A cookie session without a candidate.\<close>

definition no_session :: session where
  "no_session = \<lparr>candidateId = None, sessionToken = None\<rparr>"

text \<open>
  A third exam with a public leaderboard and one submitted candidate with 23 of 160
  marks: the exact percentage \<open>14.375\<close> lies on a rounding boundary, the double product
  \<^verbatim>\<open>(23 / 160) * 100\<close> is \<^verbatim>\<open>14.374999999999998\<close>, and the handlers print \<^verbatim>\<open>14.37\<close>.
\<close>

definition tie_exam :: exam where
  "tie_exam = \<lparr>e_id = 3, title = ''Ties'', exam_code = ''T3'', duration_minutes = 60,
     negative_marking = 0, result_mode = ''public'', allow_back_navigation = 1,
     shuffle_questions = 0, prevent_duplicate_attempts = 0, is_active = 1,
     results_published = 0\<rparr>"

definition tie_db :: database where
  "tie_db = \<lparr>exams = [tie_exam], questions = [],
     candidates =
       [\<lparr>c_id = 1, name = ''gil'', email = ''gil@example.com'', c_exam_id = 3,
         session_token = ''tok-gil'', start_time = 100, end_time = Some 900,
         score = Some 23, total_marks = 160, is_submitted = 1\<rparr>],
     responses = [], candidates_seq = 1, responses_seq = 0\<rparr>"

definition gil_view :: result_view where
  "gil_view = \<lparr>rv_name = ''gil'', rv_examTitle = ''Ties'', rv_score = Some 23,
     rv_totalMarks = 160, rv_percentage = 1437 / 100\<rparr>"

definition gil_entry :: leaderboard_entry where
  "gil_entry = \<lparr>le_rank = 1, le_name = ''gil'', le_score = Some 23, le_totalMarks = 160,
     le_percentage = 1437 / 100\<rparr>"

lemmas demo_defs =
  demo_db_def demo_session_def demo_candidate_def demo_question_def demo_exam_def

lemmas string_defs =
  toUpperCase_def toUpperCase_char_def toLowerCase_def toLowerCase_char_def
  lower_letters_def upper_letters_def isWhiteSpace_def trim_def truthy_def

lemmas handler_defs = answer_def save_response_def marksObtained_def isCorrect_def or_null_def
  next_rowid_def submit_def total_score_def Let_def

lemmas board_defs = board_db_def board_row_def board_exam_def demo_exam_def

section \<open>Properties\<close>

subsection \<open>Look-ups and the upsert\<close>

lemma find_Some_holds: "find P xs = Some x \<Longrightarrow> x \<in> set xs \<and> P x"
  by (induction xs) (auto split: if_splits)

lemma save_response_frame:
  "candidates (save_response db cid q sel k m now) = candidates db \<and>
   exams (save_response db cid q sel k m now) = exams db \<and>
   questions (save_response db cid q sel k m now) = questions db"
  by (simp add: save_response_def Let_def split: option.splits)

lemma filter_map_if:
  assumes "\<And>x. P x \<Longrightarrow> P (f x)"
  shows "filter P (map (\<lambda>x. if P x then f x else x) xs) = map f (filter P xs)"
  using assms by (induction xs) auto

lemma filter_not_map_if:
  assumes "\<And>x. P x \<Longrightarrow> P (f x)"
  shows "filter (\<lambda>x. \<not> P x) (map (\<lambda>x. if P x then f x else x) xs) = filter (\<lambda>x. \<not> P x) xs"
  using assms by (induction xs) auto

lemma find_None_filter: "find P xs = None \<longleftrightarrow> filter P xs = []"
  by (induction xs) auto

lemma save_response_pair:
  "\<exists>rows. filter (\<lambda>r. candidate_id r = cid \<and> question_id r = q)
             (responses (save_response db cid q sel k m now)) = rows \<and>
          rows \<noteq> [] \<and>
          length rows = max 1 (length (filter (\<lambda>r. candidate_id r = cid \<and> question_id r = q)
                                         (responses db))) \<and>
          list_all (written_response cid q sel k m now) rows"
proof (cases "find (\<lambda>r. candidate_id r = cid \<and> question_id r = q) (responses db)")
  case None
  then have "filter (\<lambda>r. candidate_id r = cid \<and> question_id r = q) (responses db) = []"
    by (simp add: find_None_filter)
  then show ?thesis using None
    by (simp add: save_response_def Let_def written_response_def)
next
  case (Some x)
  let ?P = "\<lambda>r. candidate_id r = cid \<and> question_id r = q"
  let ?f = "\<lambda>r. r\<lparr>selected_option := or_null sel, is_correct := (if k then 1 else 0),
                     marks_obtained := m, answered_at := now\<rparr>"
  have ne: "filter ?P (responses db) \<noteq> []"
    using Some by (simp flip: find_None_filter)
  have "filter ?P (map (\<lambda>r. if ?P r then ?f r else r) (responses db)) =
        map ?f (filter ?P (responses db))"
    by (rule filter_map_if) simp
  then have eq: "filter ?P (responses (save_response db cid q sel k m now)) =
        map ?f (filter ?P (responses db))"
    using Some by (simp add: save_response_def)
  have len: "1 \<le> length (filter ?P (responses db))"
    using ne by (cases "filter ?P (responses db)") simp_all
  have all: "list_all (written_response cid q sel k m now) (map ?f (filter ?P (responses db)))"
    by (simp add: list_all_iff written_response_def)
  show ?thesis
    unfolding eq using ne len all by (simp add: max_def)
qed

lemma save_response_others:
  "filter (\<lambda>r. \<not> (candidate_id r = cid \<and> question_id r = q))
     (responses (save_response db cid q sel k m now)) =
   filter (\<lambda>r. \<not> (candidate_id r = cid \<and> question_id r = q)) (responses db)"
proof (cases "find (\<lambda>r. candidate_id r = cid \<and> question_id r = q) (responses db)")
  case None
  then show ?thesis by (simp add: save_response_def Let_def)
next
  case (Some x)
  let ?P = "\<lambda>r. candidate_id r = cid \<and> question_id r = q"
  let ?f = "\<lambda>r. r\<lparr>selected_option := or_null sel, is_correct := (if k then 1 else 0),
                     marks_obtained := m, answered_at := now\<rparr>"
  have "filter (\<lambda>r. \<not> ?P r) (map (\<lambda>r. if ?P r then ?f r else r) (responses db)) =
        filter (\<lambda>r. \<not> ?P r) (responses db)"
    by (rule filter_not_map_if) simp
  then show ?thesis using Some by (simp add: save_response_def)
qed

lemma answer_success:
  assumes "candidateId sess = Some cid" and "cid \<noteq> 0"
    and "find (\<lambda>c. c_id c = cid \<and> is_submitted c = 0) (candidates db) = Some candidate"
    and "find (\<lambda>q. q_id q = questionId \<and> q_exam_id q = c_exam_id candidate) (questions db)
           = Some question"
    and "marksObtained (find (\<lambda>e. e_id e = c_exam_id candidate) (exams db)) question
           selectedOption = Some m"
  shows "answer db sess now questionId selectedOption =
     (save_response db cid questionId selectedOption (isCorrect question selectedOption) m now,
      sess, Inr ())"
  using assms by (simp add: answer_def)

subsection \<open>Saving an answer\<close>

text \<open>
  C9. Every \<^verbatim>\<open>POST /answer\<close> call, whatever it replies, leaves the \<open>candidates\<close> table
  as it was: the session record's score, start_time, total_marks, is_submitted and
  end_time are the same before and after the call (the score is written by
  \<^verbatim>\<open>POST /submit\<close> only). The exams, the questions and the cookie session are
  unchanged as well; only response rows are written.
\<close>

theorem answer_preserves_session_record:
  "candidates (fst (answer db sess now questionId selectedOption)) = candidates db \<and>
   exams (fst (answer db sess now questionId selectedOption)) = exams db \<and>
   questions (fst (answer db sess now questionId selectedOption)) = questions db \<and>
   fst (snd (answer db sess now questionId selectedOption)) = sess"
  by (simp add: answer_def save_response_frame split: option.splits)

theorem answer_preserves_session_record_witness:
  "candidates (fst (answer demo_db demo_session 130 1 (Some ''a''))) = [demo_candidate] \<and>
   responses (fst (answer demo_db demo_session 130 1 (Some ''a''))) \<noteq> responses demo_db"
proof -
  have "responses (fst (answer demo_db demo_session 130 1 (Some ''a''))) \<noteq> responses demo_db"
    by (simp add: answer_def save_response_def marksObtained_def isCorrect_def demo_defs
        string_defs Let_def)
  moreover have "candidates demo_db = [demo_candidate]"
    by (simp add: demo_db_def)
  ultimately show ?thesis
    using answer_preserves_session_record [of demo_db demo_session 130 1 "Some ''a''"]
    by simp
qed

text \<open>
  C2. For a \<^verbatim>\<open>POST /answer\<close> call whose session holds the id of an unsubmitted
  candidate, on a question of the candidate's exam (the exam row present), the call
  succeeds, a response row of the pair exists afterwards, and the marks stored in every
  row of the pair are: 0 if no option is selected; the question's marks if the uppercased
  option equals the question's correct option; minus the exam's negative marking (not
  scaled by the question's marks) if the answer is incorrect and the negative marking is
  positive; 0 if it is incorrect and the negative marking is 0.
\<close>

theorem answer_marks_stored:
  assumes "candidateId sess = Some cid" and "cid \<noteq> 0"
    and "find (\<lambda>c. c_id c = cid \<and> is_submitted c = 0) (candidates db) = Some candidate"
    and "find (\<lambda>q. q_id q = questionId \<and> q_exam_id q = c_exam_id candidate) (questions db)
           = Some question"
    and "find (\<lambda>e. e_id e = c_exam_id candidate) (exams db) = Some exam"
  shows "\<exists>db'. answer db sess now questionId selectedOption = (db', sess, Inr ()) \<and>
     (\<exists>r \<in> set (responses db'). candidate_id r = cid \<and> question_id r = questionId) \<and>
     (\<forall>r \<in> set (responses db'). candidate_id r = cid \<and> question_id r = questionId \<longrightarrow>
        (\<not> truthy selectedOption \<longrightarrow> marks_obtained r = 0) \<and>
        (truthy selectedOption \<and> toUpperCase (the selectedOption) = correct_option question \<longrightarrow>
           marks_obtained r = of_int (marks question)) \<and>
        (truthy selectedOption \<and> toUpperCase (the selectedOption) \<noteq> correct_option question \<and>
           negative_marking exam > 0 \<longrightarrow> marks_obtained r = - negative_marking exam) \<and>
        (truthy selectedOption \<and> toUpperCase (the selectedOption) \<noteq> correct_option question \<and>
           negative_marking exam = 0 \<longrightarrow> marks_obtained r = 0))"
proof -
  have "\<exists>m. marksObtained (Some exam) question selectedOption = Some m"
    by (simp add: marksObtained_def)
  then obtain m where m: "marksObtained (Some exam) question selectedOption = Some m" ..
  have grade:
    "(\<not> truthy selectedOption \<longrightarrow> m = 0) \<and>
     (truthy selectedOption \<and> toUpperCase (the selectedOption) = correct_option question \<longrightarrow>
        m = of_int (marks question)) \<and>
     (truthy selectedOption \<and> toUpperCase (the selectedOption) \<noteq> correct_option question \<and>
        negative_marking exam > 0 \<longrightarrow> m = - negative_marking exam) \<and>
     (truthy selectedOption \<and> toUpperCase (the selectedOption) \<noteq> correct_option question \<and>
        negative_marking exam = 0 \<longrightarrow> m = 0)"
    using m by (auto simp: marksObtained_def isCorrect_def split: if_splits)
  let ?db' = "save_response db cid questionId selectedOption (isCorrect question selectedOption) m now"
  have run: "answer db sess now questionId selectedOption = (?db', sess, Inr ())"
    using assms m by (simp add: answer_success)
  let ?P = "\<lambda>r. candidate_id r = cid \<and> question_id r = questionId"
  from save_response_pair[of cid questionId db selectedOption "isCorrect question selectedOption" m now]
  have ne: "filter ?P (responses ?db') \<noteq> []"
    and all: "list_all (written_response cid questionId selectedOption
                 (isCorrect question selectedOption) m now) (filter ?P (responses ?db'))"
    by simp_all
  from ne have ex: "\<exists>r \<in> set (responses ?db'). ?P r"
    by (simp add: filter_empty_conv)
  from all have stored: "\<forall>r \<in> set (responses ?db'). ?P r \<longrightarrow> marks_obtained r = m"
    by (simp add: list_all_iff written_response_def)
  have "\<forall>r \<in> set (responses ?db'). ?P r \<longrightarrow>
        (\<not> truthy selectedOption \<longrightarrow> marks_obtained r = 0) \<and>
        (truthy selectedOption \<and> toUpperCase (the selectedOption) = correct_option question \<longrightarrow>
           marks_obtained r = of_int (marks question)) \<and>
        (truthy selectedOption \<and> toUpperCase (the selectedOption) \<noteq> correct_option question \<and>
           negative_marking exam > 0 \<longrightarrow> marks_obtained r = - negative_marking exam) \<and>
        (truthy selectedOption \<and> toUpperCase (the selectedOption) \<noteq> correct_option question \<and>
           negative_marking exam = 0 \<longrightarrow> marks_obtained r = 0)"
  proof (intro ballI impI)
    fix r assume "r \<in> set (responses ?db')" and "?P r"
    with stored have "marks_obtained r = m" by blast
    with grade show
      "(\<not> truthy selectedOption \<longrightarrow> marks_obtained r = 0) \<and>
       (truthy selectedOption \<and> toUpperCase (the selectedOption) = correct_option question \<longrightarrow>
          marks_obtained r = of_int (marks question)) \<and>
       (truthy selectedOption \<and> toUpperCase (the selectedOption) \<noteq> correct_option question \<and>
          negative_marking exam > 0 \<longrightarrow> marks_obtained r = - negative_marking exam) \<and>
       (truthy selectedOption \<and> toUpperCase (the selectedOption) \<noteq> correct_option question \<and>
          negative_marking exam = 0 \<longrightarrow> marks_obtained r = 0)"
      by simp
  qed
  with run ex show ?thesis by blast
qed

theorem answer_marks_stored_witness:
  "candidateId demo_session = Some 1 \<and>
   find (\<lambda>c. c_id c = 1 \<and> is_submitted c = 0) (candidates demo_db) = Some demo_candidate \<and>
   find (\<lambda>q. q_id q = 1 \<and> q_exam_id q = c_exam_id demo_candidate) (questions demo_db)
     = Some demo_question \<and>
   find (\<lambda>e. e_id e = c_exam_id demo_candidate) (exams demo_db) = Some demo_exam \<and>
   (\<exists>db'. answer demo_db demo_session 130 1 (Some ''a'') = (db', demo_session, Inr ()) \<and>
      (\<exists>r \<in> set (responses db'). candidate_id r = 1 \<and> question_id r = 1) \<and>
      (\<forall>r \<in> set (responses db'). candidate_id r = 1 \<and> question_id r = 1 \<longrightarrow>
         marks_obtained r = - (1 / 2)))"
proof -
  have h1: "candidateId demo_session = Some 1"
    by (simp add: demo_defs)
  have h2: "(1::nat) \<noteq> 0"
    by simp
  have h3: "find (\<lambda>c. c_id c = 1 \<and> is_submitted c = 0) (candidates demo_db) = Some demo_candidate"
    by (simp add: demo_defs)
  have h4: "find (\<lambda>q. q_id q = 1 \<and> q_exam_id q = c_exam_id demo_candidate) (questions demo_db)
     = Some demo_question"
    by (simp add: demo_defs)
  have h5: "find (\<lambda>e. e_id e = c_exam_id demo_candidate) (exams demo_db) = Some demo_exam"
    by (simp add: demo_defs)
  have sel: "truthy (Some ''a'') \<and> toUpperCase (the (Some ''a'')) \<noteq> correct_option demo_question
      \<and> negative_marking demo_exam = 1 / 2"
    by (simp add: string_defs demo_defs)
  from answer_marks_stored [OF h1 h2 h3 h4 h5, of 130 "Some ''a''"] sel
  have "\<exists>db'. answer demo_db demo_session 130 1 (Some ''a'') = (db', demo_session, Inr ()) \<and>
      (\<exists>r \<in> set (responses db'). candidate_id r = 1 \<and> question_id r = 1) \<and>
      (\<forall>r \<in> set (responses db'). candidate_id r = 1 \<and> question_id r = 1 \<longrightarrow>
         marks_obtained r = - (1 / 2))"
    by simp
  with h1 h3 h4 h5 show ?thesis by blast
qed

lemma answer_all_last_aux:
  assumes "candidateId sess = Some cid" and "cid \<noteq> 0"
    and "find (\<lambda>c. c_id c = cid \<and> is_submitted c = 0) (candidates db) = Some candidate"
    and "find (\<lambda>q. q_id q = questionId \<and> q_exam_id q = c_exam_id candidate) (questions db)
           = Some question"
    and "find (\<lambda>e. e_id e = c_exam_id candidate) (exams db) = Some exam"
    and "length (filter (\<lambda>r. candidate_id r = cid \<and> question_id r = questionId) (responses db)) \<le> 1"
    and "calls \<noteq> []"
  shows "\<exists>r. filter (\<lambda>r. candidate_id r = cid \<and> question_id r = questionId)
                (responses (answer_all db sess questionId calls)) = [r] \<and>
             written_response cid questionId (snd (last calls))
               (isCorrect question (snd (last calls)))
               (the (marksObtained (Some exam) question (snd (last calls))))
               (fst (last calls)) r"
  using assms
proof (induction calls arbitrary: db)
  case Nil
  then show ?case by simp
next
  case (Cons call calls)
  obtain now sel where call: "call = (now, sel)" by (cases call)
  have "\<exists>m. marksObtained (Some exam) question sel = Some m"
    by (simp add: marksObtained_def)
  then obtain m where m: "marksObtained (Some exam) question sel = Some m" ..
  let ?db1 = "save_response db cid questionId sel (isCorrect question sel) m now"
  let ?P = "\<lambda>r. candidate_id r = cid \<and> question_id r = questionId"
  have run: "answer db sess now questionId sel = (?db1, sess, Inr ())"
    using Cons.prems m by (simp add: answer_success)
  from save_response_pair[of cid questionId db sel "isCorrect question sel" m now]
  have len1: "length (filter ?P (responses ?db1)) = max 1 (length (filter ?P (responses db)))"
    and all1: "list_all (written_response cid questionId sel (isCorrect question sel) m now)
                 (filter ?P (responses ?db1))"
    by simp_all
  from len1 Cons.prems(6) have one: "length (filter ?P (responses ?db1)) = 1"
    by (simp add: max_def)
  show ?case
  proof (cases "calls = []")
    case True
    from one obtain r where r: "filter ?P (responses ?db1) = [r]"
      by (cases "filter ?P (responses ?db1)") auto
    with all1 have "written_response cid questionId sel (isCorrect question sel) m now r"
      by simp
    with r True call run m show ?thesis by simp
  next
    case False
    have "\<exists>r. filter ?P (responses (answer_all ?db1 sess questionId calls)) = [r] \<and>
             written_response cid questionId (snd (last calls))
               (isCorrect question (snd (last calls)))
               (the (marksObtained (Some exam) question (snd (last calls))))
               (fst (last calls)) r"
      using Cons.prems(1-5) one False
      by (intro Cons.IH) (simp_all add: save_response_frame)
    with False call run show ?thesis by simp
  qed
qed


lemma answer_others:
  assumes "candidateId sess = Some cid"
  shows "filter (\<lambda>r. \<not> (candidate_id r = cid \<and> question_id r = q))
           (responses (fst (answer db sess now q sel))) =
         filter (\<lambda>r. \<not> (candidate_id r = cid \<and> question_id r = q)) (responses db)"
proof -
  from assms have "fst (answer db sess now q sel) = db \<or>
      (\<exists>k m. fst (answer db sess now q sel) = save_response db cid q sel k m now)"
    by (auto simp: answer_def split: option.splits)
  then show ?thesis
  proof (elim disjE exE)
    assume "fst (answer db sess now q sel) = db"
    then show ?thesis by (simp only:)
  next
    fix k m
    assume "fst (answer db sess now q sel) = save_response db cid q sel k m now"
    then show ?thesis by (simp only: save_response_others)
  qed
qed

lemma answer_all_others:
  assumes "candidateId sess = Some cid"
  shows "filter (\<lambda>r. \<not> (candidate_id r = cid \<and> question_id r = q))
           (responses (answer_all db sess q calls)) =
         filter (\<lambda>r. \<not> (candidate_id r = cid \<and> question_id r = q)) (responses db)"
  using assms
proof (induction calls arbitrary: db)
  case Nil
  then show ?case by simp
next
  case (Cons call calls)
  obtain now sel where "call = (now, sel)" by (cases call)
  then have "answer_all db sess q (call # calls) =
      answer_all (fst (answer db sess now q sel)) sess q calls"
    by simp
  also have "filter (\<lambda>r. \<not> (candidate_id r = cid \<and> question_id r = q)) (responses \<dots>) =
      filter (\<lambda>r. \<not> (candidate_id r = cid \<and> question_id r = q))
        (responses (fst (answer db sess now q sel)))"
    using Cons.prems by (rule Cons.IH)
  also have "\<dots> = filter (\<lambda>r. \<not> (candidate_id r = cid \<and> question_id r = q)) (responses db)"
    using Cons.prems by (rule answer_others)
  finally show ?case .
qed

text \<open>
  C3. For a session holding the id of an unsubmitted candidate and a question of its exam,
  in a database that has at most one response row of the pair (the unique index
  \<open>idx_responses_unique\<close>), after any non-empty sequence of \<^verbatim>\<open>POST /answer\<close> requests
  for the pair there is exactly one response row of the pair, and its selected_option,
  is_correct, marks_obtained and answered_at are those of the last request alone: no marks
  of an earlier request remain. The rows of every other pair are as before.
\<close>

theorem answer_sequence_single_row:
  assumes "candidateId sess = Some cid" and "cid \<noteq> 0"
    and "find (\<lambda>c. c_id c = cid \<and> is_submitted c = 0) (candidates db) = Some candidate"
    and "find (\<lambda>q. q_id q = questionId \<and> q_exam_id q = c_exam_id candidate) (questions db)
           = Some question"
    and "find (\<lambda>e. e_id e = c_exam_id candidate) (exams db) = Some exam"
    and "length (filter (\<lambda>r. candidate_id r = cid \<and> question_id r = questionId) (responses db)) \<le> 1"
    and "calls \<noteq> []" and "last calls = (now, selectedOption)"
  shows "(\<exists>r. filter (\<lambda>r. candidate_id r = cid \<and> question_id r = questionId)
                (responses (answer_all db sess questionId calls)) = [r] \<and>
              selected_option r = or_null selectedOption \<and>
              is_correct r = (if isCorrect question selectedOption then 1 else 0) \<and>
              Some (marks_obtained r) = marksObtained (Some exam) question selectedOption \<and>
              answered_at r = now) \<and>
         filter (\<lambda>r. \<not> (candidate_id r = cid \<and> question_id r = questionId))
           (responses (answer_all db sess questionId calls)) =
         filter (\<lambda>r. \<not> (candidate_id r = cid \<and> question_id r = questionId)) (responses db)"
proof -
  have "\<exists>m. marksObtained (Some exam) question selectedOption = Some m"
    by (simp add: marksObtained_def)
  then obtain m where m: "marksObtained (Some exam) question selectedOption = Some m" ..
  from answer_all_last_aux[OF assms(1-7)] assms(8) m
  have "\<exists>r. filter (\<lambda>r. candidate_id r = cid \<and> question_id r = questionId)
                (responses (answer_all db sess questionId calls)) = [r] \<and>
             written_response cid questionId selectedOption
               (isCorrect question selectedOption) m now r"
    by simp
  with m have "\<exists>r. filter (\<lambda>r. candidate_id r = cid \<and> question_id r = questionId)
                (responses (answer_all db sess questionId calls)) = [r] \<and>
              selected_option r = or_null selectedOption \<and>
              is_correct r = (if isCorrect question selectedOption then 1 else 0) \<and>
              Some (marks_obtained r) = marksObtained (Some exam) question selectedOption \<and>
              answered_at r = now"
    by (auto simp: written_response_def)
  with answer_all_others[OF assms(1)] show ?thesis by blast
qed

theorem answer_sequence_single_row_witness:
  "candidateId demo_session = Some 1 \<and>
   find (\<lambda>c. c_id c = 1 \<and> is_submitted c = 0) (candidates demo_db) = Some demo_candidate \<and>
   find (\<lambda>q. q_id q = 1 \<and> q_exam_id q = c_exam_id demo_candidate) (questions demo_db)
     = Some demo_question \<and>
   find (\<lambda>e. e_id e = c_exam_id demo_candidate) (exams demo_db) = Some demo_exam \<and>
   length (filter (\<lambda>r. candidate_id r = 1 \<and> question_id r = 1) (responses demo_db)) \<le> 1 \<and>
   (\<exists>r. filter (\<lambda>r. candidate_id r = 1 \<and> question_id r = 1)
          (responses (answer_all demo_db demo_session 1 [(130, Some ''A''), (140, Some ''c'')]))
        = [r] \<and>
        selected_option r = Some ''c'' \<and> is_correct r = 1 \<and> marks_obtained r = 2 \<and>
        answered_at r = 140)"
proof -
  have h1: "candidateId demo_session = Some 1"
    by (simp add: demo_defs)
  have h2: "(1::nat) \<noteq> 0"
    by simp
  have h3: "find (\<lambda>c. c_id c = 1 \<and> is_submitted c = 0) (candidates demo_db) = Some demo_candidate"
    by (simp add: demo_defs)
  have h4: "find (\<lambda>q. q_id q = 1 \<and> q_exam_id q = c_exam_id demo_candidate) (questions demo_db)
     = Some demo_question"
    by (simp add: demo_defs)
  have h5: "find (\<lambda>e. e_id e = c_exam_id demo_candidate) (exams demo_db) = Some demo_exam"
    by (simp add: demo_defs)
  have h6: "length (filter (\<lambda>r. candidate_id r = 1 \<and> question_id r = 1) (responses demo_db)) \<le> 1"
    by (simp add: demo_defs)
  have h7: "[(130::nat, Some ''A''), (140, Some ''c'')] \<noteq> []"
    by simp
  have h8: "last [(130::nat, Some ''A''), (140, Some ''c'')] = (140, Some ''c'')"
    by simp
  have sel: "or_null (Some ''c'') = Some ''c'' \<and> isCorrect demo_question (Some ''c'') \<and>
      marksObtained (Some demo_exam) demo_question (Some ''c'') = Some 2"
    by (simp add: or_null_def isCorrect_def marksObtained_def string_defs demo_defs)
  from answer_sequence_single_row [OF h1 h2 h3 h4 h5 h6 h7 h8] sel
  have "\<exists>r. filter (\<lambda>r. candidate_id r = 1 \<and> question_id r = 1)
          (responses (answer_all demo_db demo_session 1 [(130, Some ''A''), (140, Some ''c'')]))
        = [r] \<and>
        selected_option r = Some ''c'' \<and> is_correct r = 1 \<and> marks_obtained r = 2 \<and>
        answered_at r = 140"
    by simp
  with h1 h3 h4 h5 h6 show ?thesis by blast
qed

subsection \<open>Submitting\<close>

lemma find_update_by_id:
  assumes "distinct (map c_id cs)"
    and "find (\<lambda>c. c_id c = cid \<and> P c) cs = Some x"
    and "\<And>c. c_id (f c) = c_id c"
  shows "find (\<lambda>c. c_id c = cid) (map (\<lambda>c. if c_id c = cid then f c else c) cs) = Some (f x)"
  using assms
proof (induction cs)
  case Nil
  then show ?case by simp
next
  case (Cons c cs)
  show ?case
  proof (cases "c_id c = cid")
    case True
    have "P c"
    proof (rule ccontr)
      assume "\<not> P c"
      with Cons.prems(2) have "find (\<lambda>c. c_id c = cid \<and> P c) cs = Some x" by simp
      from find_Some_holds[OF this] have "x \<in> set cs" "c_id x = cid" by simp_all
      then have "cid \<in> c_id ` set cs" by blast
      with True Cons.prems(1) show False by simp
    qed
    with True Cons.prems(2) have "x = c" by simp
    with True Cons.prems(3) show ?thesis by simp
  next
    case False
    with Cons show ?thesis by simp
  qed
qed

lemma demo_wrong_db_eq:
  "demo_wrong_db = demo_db\<lparr>responses :=
      [\<lparr>r_id = 1, candidate_id = 1, question_id = 1, selected_option = Some ''A'',
        is_correct = 0, marks_obtained = - (1 / 2), answered_at = 130\<rparr>], responses_seq := 1\<rparr>"
  by (simp add: demo_wrong_db_def handler_defs string_defs demo_defs)

text \<open>
  C1. For a session holding the id of a known, unsubmitted candidate (ids being the
  primary key), \<^verbatim>\<open>POST /submit\<close> succeeds and rewrites the candidate's row with
  is_submitted = 1, end_time = now and score = max(0, sum of marks_obtained over the
  candidate's responses), every other column kept; the score is 0 when the candidate has
  no response, and 0 when the sum is negative.
\<close>

theorem submit_score:
  assumes "candidateId sess = Some cid" and "cid \<noteq> 0"
    and "find (\<lambda>c. c_id c = cid \<and> is_submitted c = 0) (candidates db) = Some candidate"
    and "distinct (map c_id (candidates db))"
  shows "\<exists>db' sess'. submit db sess now = (db', sess', Inr ()) \<and>
     find (\<lambda>c. c_id c = cid) (candidates db') =
       Some (candidate\<lparr>is_submitted := 1, end_time := Some now,
               score := Some (max 0 (sum_list (map marks_obtained
                          (filter (\<lambda>r. candidate_id r = cid) (responses db)))))\<rparr>) \<and>
     (filter (\<lambda>r. candidate_id r = cid) (responses db) = [] \<longrightarrow>
        map_option score (find (\<lambda>c. c_id c = cid) (candidates db')) = Some (Some 0)) \<and>
     (sum_list (map marks_obtained (filter (\<lambda>r. candidate_id r = cid) (responses db))) < 0 \<longrightarrow>
        map_option score (find (\<lambda>c. c_id c = cid) (candidates db')) = Some (Some 0))"
proof -
  let ?s = "max 0 (total_score db cid)"
  let ?f = "\<lambda>c. c\<lparr>is_submitted := 1, end_time := Some now, score := Some ?s\<rparr>"
  let ?db' = "db\<lparr>candidates := map (\<lambda>c. if c_id c = cid then ?f c else c) (candidates db)\<rparr>"
  have run: "submit db sess now = (?db', \<lparr>candidateId = None, sessionToken = None\<rparr>, Inr ())"
    using assms(1-3) by (simp add: submit_def Let_def)
  have "find (\<lambda>c. c_id c = cid) (map (\<lambda>c. if c_id c = cid then ?f c else c) (candidates db))
        = Some (?f candidate)"
    using assms(4) assms(3) by (rule find_update_by_id) simp
  then have row: "find (\<lambda>c. c_id c = cid) (candidates ?db') = Some (?f candidate)"
    by simp
  show ?thesis
    unfolding run using row by (auto simp: total_score_def)
qed

theorem submit_score_witness:
  "candidateId demo_session = Some 1 \<and>
   find (\<lambda>c. c_id c = 1 \<and> is_submitted c = 0) (candidates demo_wrong_db) = Some demo_candidate \<and>
   distinct (map c_id (candidates demo_wrong_db)) \<and>
   sum_list (map marks_obtained (filter (\<lambda>r. candidate_id r = 1) (responses demo_wrong_db)))
     = - (1 / 2) \<and>
   (\<exists>db' sess'. submit demo_wrong_db demo_session 200 = (db', sess', Inr ()) \<and>
      find (\<lambda>c. c_id c = 1) (candidates db') =
        Some (demo_candidate\<lparr>is_submitted := 1, end_time := Some 200, score := Some 0\<rparr>))"
proof -
  have h1: "candidateId demo_session = Some 1"
    by (simp add: demo_defs)
  have h2: "(1::nat) \<noteq> 0"
    by simp
  have h3: "find (\<lambda>c. c_id c = 1 \<and> is_submitted c = 0) (candidates demo_wrong_db)
      = Some demo_candidate"
    by (simp add: demo_wrong_db_eq) (simp add: demo_defs)
  have h4: "distinct (map c_id (candidates demo_wrong_db))"
    by (simp add: demo_wrong_db_eq) (simp add: demo_defs)
  have total: "sum_list (map marks_obtained
      (filter (\<lambda>r. candidate_id r = 1) (responses demo_wrong_db))) = - (1 / 2)"
    by (simp add: demo_wrong_db_eq)
  from submit_score [OF h1 h2 h3 h4, of 200] total
  have "\<exists>db' sess'. submit demo_wrong_db demo_session 200 = (db', sess', Inr ()) \<and>
      find (\<lambda>c. c_id c = 1) (candidates db') =
        Some (demo_candidate\<lparr>is_submitted := 1, end_time := Some 200, score := Some 0\<rparr>)"
    by auto
  with h1 h3 h4 total show ?thesis by blast
qed


text \<open>
  The scenario of the specification, end to end: the wrong answer \<open>A\<close> (worth \<open>-0.5\<close>) is
  replaced by the correct answer \<open>C\<close> (worth 2), and the submission yields the score 2,
  not 1.5.
\<close>

lemma scenario_reanswer_then_submit:
  "map score (candidates (fst (submit
      (answer_all demo_db demo_session 1 [(130, Some ''A''), (140, Some ''C'')])
      demo_session 200))) = [Some 2]"
  by (simp add: handler_defs string_defs demo_defs)

subsection \<open>Starting a session\<close>


lemma start_valid:
  assumes "n \<noteq> []" and "em \<noteq> []" and "code \<noteq> []" and "emailRegex_test em"
  shows "start db sess now uuid (Some n) (Some em) (Some code) =
         start_session db sess now uuid n em code"
  using assms by (simp add: start_def truthy_def)


lemma demo_submitted_db_eq:
  "demo_submitted_db = demo_wrong_db\<lparr>candidates := [demo_submitted_candidate]\<rparr>"
  by (simp add: demo_submitted_db_def demo_submitted_candidate_def demo_wrong_db_eq submit_def
      total_score_def demo_defs)

lemma demo_submitted_db_tables:
  "exams demo_submitted_db = [demo_exam] \<and>
   candidates demo_submitted_db = [demo_submitted_candidate]"
  by (simp add: demo_submitted_db_eq demo_wrong_db_eq) (simp add: demo_db_def)

text \<open>The email check of lines 15--19 admits no white space, so it leaves nothing for
  \<^verbatim>\<open>trim\<close> to remove: on an accepted email the key is the lowercased email.\<close>

lemma dropWhile_none: "\<forall>x \<in> set xs. \<not> P x \<Longrightarrow> dropWhile P xs = xs"
  by (cases xs) simp_all

lemma emailRegex_trim:
  assumes "emailRegex_test em"
  shows "trim em = em"
proof -
  from assms have clean: "\<forall>c \<in> set em. \<not> isWhiteSpace c"
    by (simp add: emailRegex_test_def Let_def list_all_iff)
  then have "dropWhile isWhiteSpace em = em"
    by (rule dropWhile_none)
  moreover from clean have "dropWhile isWhiteSpace (rev em) = rev em"
    by (intro dropWhile_none) simp
  ultimately show ?thesis
    by (simp add: trim_def)
qed

text \<open>
  C5 (as amended). For an active exam whose \<open>prevent_duplicate_attempts\<close> flag is set and a
  \<^verbatim>\<open>POST /start\<close> request with a name and an exam code, for which a submitted session
  of the exam exists whose stored email equals the request's email trimmed and
  lowercased: when the email as sent passes the handler's email check, trimming leaves it
  unchanged (the key is the lowercased email), the request is answered
  \<open>DuplicateAttempt\<close>, and the database (so the set of sessions) and the cookie session
  are unchanged; when a non-empty email fails the check, as every email with surrounding
  white space does, the request is answered \<open>InvalidEmail\<close> before any look-up, and
  nothing is written either.
\<close>

theorem start_duplicate_attempt_validated:
  assumes "n \<noteq> []" and "code \<noteq> []"
    and "find (\<lambda>e. exam_code e = toUpperCase code \<and> is_active e = 1) (exams db) = Some exam"
    and "prevent_duplicate_attempts exam \<noteq> 0"
    and "c \<in> set (candidates db)" and "c_exam_id c = e_id exam"
    and "email c = toLowerCase (trim em)" and "is_submitted c = 1"
  shows "(emailRegex_test em \<longrightarrow>
            trim em = em \<and> email c = toLowerCase em \<and>
            start db sess now uuid (Some n) (Some em) (Some code) =
              (db, sess, Inl DuplicateAttempt)) \<and>
         (\<not> emailRegex_test em \<and> em \<noteq> [] \<longrightarrow>
            start db sess now uuid (Some n) (Some em) (Some code) =
              (db, sess, Inl InvalidEmail))"
proof (intro conjI impI)
  assume ok: "emailRegex_test em"
  then show t: "trim em = em"
    by (rule emailRegex_trim)
  with assms(7) show "email c = toLowerCase em"
    by simp
  have em: "em \<noteq> []"
    using ok by (auto simp: emailRegex_test_def)
  have "submitted_session db exam em \<noteq> None"
    using assms(5-8) by (auto simp: submitted_session_def email_key_def find_None_iff)
  with assms(1-4) ok em
  show "start db sess now uuid (Some n) (Some em) (Some code) = (db, sess, Inl DuplicateAttempt)"
    by (simp add: start_valid start_session_def)
next
  assume "\<not> emailRegex_test em \<and> em \<noteq> []"
  with assms(1,2)
  show "start db sess now uuid (Some n) (Some em) (Some code) = (db, sess, Inl InvalidEmail)"
    by (simp add: start_def truthy_def)
qed

theorem start_duplicate_attempt_validated_witness:
  "find (\<lambda>e. exam_code e = toUpperCase ''q1'' \<and> is_active e = 1) (exams demo_submitted_db)
     = Some demo_exam \<and>
   prevent_duplicate_attempts demo_exam \<noteq> 0 \<and>
   demo_submitted_candidate \<in> set (candidates demo_submitted_db) \<and>
   c_exam_id demo_submitted_candidate = e_id demo_exam \<and>
   email demo_submitted_candidate = toLowerCase (trim ''Ann@Example.COM'') \<and>
   is_submitted demo_submitted_candidate = 1 \<and>
   emailRegex_test ''Ann@Example.COM'' \<and>
   trim ''Ann@Example.COM'' = ''Ann@Example.COM'' \<and>
   start demo_submitted_db no_session 300 ''tok-2'' (Some ''Ann B'') (Some ''Ann@Example.COM'')
     (Some ''q1'') = (demo_submitted_db, no_session, Inl DuplicateAttempt) \<and>
   email demo_submitted_candidate = toLowerCase (trim ''ann@example.com  '') \<and>
   \<not> emailRegex_test ''ann@example.com  '' \<and>
   start demo_submitted_db no_session 300 ''tok-2'' (Some ''Ann B'') (Some ''ann@example.com  '')
     (Some ''q1'') = (demo_submitted_db, no_session, Inl InvalidEmail)"
proof -
  have h1: "''Ann B'' \<noteq> []" and h2: "''q1'' \<noteq> []"
    by simp_all
  have h3: "find (\<lambda>e. exam_code e = toUpperCase ''q1'' \<and> is_active e = 1)
      (exams demo_submitted_db) = Some demo_exam"
    by (simp add: demo_submitted_db_tables) (simp add: demo_exam_def string_defs)
  have h4: "prevent_duplicate_attempts demo_exam \<noteq> 0"
    by (simp add: demo_exam_def)
  have h5: "demo_submitted_candidate \<in> set (candidates demo_submitted_db)"
    by (simp add: demo_submitted_db_tables)
  have h6: "c_exam_id demo_submitted_candidate = e_id demo_exam"
    by (simp add: demo_submitted_candidate_def demo_candidate_def demo_exam_def)
  have h7: "email demo_submitted_candidate = toLowerCase (trim ''Ann@Example.COM'')"
    by (simp add: demo_submitted_candidate_def demo_candidate_def string_defs)
  have h7': "email demo_submitted_candidate = toLowerCase (trim ''ann@example.com  '')"
    by (simp add: demo_submitted_candidate_def demo_candidate_def string_defs)
  have h8: "is_submitted demo_submitted_candidate = 1"
    by (simp add: demo_submitted_candidate_def)
  have ok: "emailRegex_test ''Ann@Example.COM''"
    by (simp add: emailRegex_test_def isWhiteSpace_def)
  have bad: "\<not> emailRegex_test ''ann@example.com  '' \<and> ''ann@example.com  '' \<noteq> []"
    by (simp add: emailRegex_test_def isWhiteSpace_def)
  from start_duplicate_attempt_validated [OF h1 h2 h3 h4 h5 h6 h7 h8, of no_session 300 "''tok-2''"]
    ok
  have a: "trim ''Ann@Example.COM'' = ''Ann@Example.COM'' \<and>
     start demo_submitted_db no_session 300 ''tok-2'' (Some ''Ann B'') (Some ''Ann@Example.COM'')
       (Some ''q1'') = (demo_submitted_db, no_session, Inl DuplicateAttempt)"
    by blast
  from start_duplicate_attempt_validated [OF h1 h2 h3 h4 h5 h6 h7' h8, of no_session 300 "''tok-2''"]
    bad
  have b: "start demo_submitted_db no_session 300 ''tok-2'' (Some ''Ann B'')
       (Some ''ann@example.com  '') (Some ''q1'') = (demo_submitted_db, no_session, Inl InvalidEmail)"
    by blast
  from a b bad h3 h4 h5 h6 h7 h7' h8 ok show ?thesis by blast
qed

text \<open>
  C5 as it was stated, with the key trimmed before the comparison, fails where
  trimming would matter: for the email \<open>Ann@Example.COM\<close> sent with a leading and a
  trailing space, the exam's flag is set and the candidate's submitted session is stored
  under the trimmed, lowercased email, yet the request is answered \<open>InvalidEmail\<close>, not
  \<open>DuplicateAttempt\<close>.
\<close>

theorem start_duplicate_attempt_counterexample:
  "find (\<lambda>e. exam_code e = toUpperCase ''q1'' \<and> is_active e = 1) (exams demo_submitted_db)
     = Some demo_exam \<and>
   prevent_duplicate_attempts demo_exam \<noteq> 0 \<and>
   demo_submitted_candidate \<in> set (candidates demo_submitted_db) \<and>
   c_exam_id demo_submitted_candidate = e_id demo_exam \<and>
   is_submitted demo_submitted_candidate = 1 \<and>
   email demo_submitted_candidate = toLowerCase (trim '' Ann@Example.COM '') \<and>
   start demo_submitted_db no_session 300 ''tok-2'' (Some ''Ann B'') (Some '' Ann@Example.COM '')
     (Some ''q1'') = (demo_submitted_db, no_session, Inl InvalidEmail) \<and>
   start demo_submitted_db no_session 300 ''tok-2'' (Some ''Ann B'') (Some '' Ann@Example.COM '')
     (Some ''q1'') \<noteq> (demo_submitted_db, no_session, Inl DuplicateAttempt)"
proof -
  have "find (\<lambda>e. exam_code e = toUpperCase ''q1'' \<and> is_active e = 1)
      (exams demo_submitted_db) = Some demo_exam"
    by (simp add: demo_submitted_db_tables) (simp add: demo_exam_def string_defs)
  moreover have "prevent_duplicate_attempts demo_exam \<noteq> 0"
    by (simp add: demo_exam_def)
  moreover have "demo_submitted_candidate \<in> set (candidates demo_submitted_db)"
    by (simp add: demo_submitted_db_tables)
  moreover have "c_exam_id demo_submitted_candidate = e_id demo_exam"
    by (simp add: demo_submitted_candidate_def demo_candidate_def demo_exam_def)
  moreover have "is_submitted demo_submitted_candidate = 1"
    by (simp add: demo_submitted_candidate_def)
  moreover have "email demo_submitted_candidate = toLowerCase (trim '' Ann@Example.COM '')"
    by (simp add: demo_submitted_candidate_def demo_candidate_def string_defs)
  moreover have run: "start demo_submitted_db no_session 300 ''tok-2'' (Some ''Ann B'')
      (Some '' Ann@Example.COM '') (Some ''q1'') = (demo_submitted_db, no_session, Inl InvalidEmail)"
    by (simp add: start_def truthy_def emailRegex_test_def isWhiteSpace_def)
  moreover have "start demo_submitted_db no_session 300 ''tok-2'' (Some ''Ann B'')
      (Some '' Ann@Example.COM '') (Some ''q1'') \<noteq> (demo_submitted_db, no_session, Inl DuplicateAttempt)"
    unfolding run by simp
  ultimately show ?thesis by blast
qed



subsection \<open>Viewing a result\<close>

text \<open>
  C6. For the session a token designates (the first joined row of candidate and exam):
  \<^verbatim>\<open>GET /result\<close> fails with \<open>NotSubmitted\<close> when the session is not submitted; for a
  submitted session it replies, and \<open>canView\<close> is true under \<open>private\<close> and under
  \<open>public\<close>, true under \<open>after_publish\<close> exactly when \<open>results_published\<close> is 1 (with the
  ``will be published'' message otherwise), and false under \<open>admin_only\<close>.
\<close>

theorem result_visibility:
  assumes "result_rows db token = (c, e) # rows"
  shows "(is_submitted c = 0 \<longrightarrow> result db token = Inl NotSubmitted) \<and>
    (is_submitted c \<noteq> 0 \<longrightarrow>
      (\<exists>reply. result db token = Inr reply \<and>
         (result_mode e = ''private'' \<longrightarrow> canView reply) \<and>
         (result_mode e = ''public'' \<longrightarrow> canView reply) \<and>
         (result_mode e = ''after_publish'' \<longrightarrow>
            (canView reply \<longleftrightarrow> results_published e = 1) \<and>
            (results_published e \<noteq> 1 \<longrightarrow>
               reply = CannotView ''Results will be published by the administrator'')) \<and>
         (result_mode e = ''admin_only'' \<longrightarrow> \<not> canView reply)))"
proof (intro conjI impI)
  assume "is_submitted c = 0"
  with assms show "result db token = Inl NotSubmitted"
    by (simp add: result_def)
next
  assume sub: "is_submitted c \<noteq> 0"
  obtain ok message where sw: "result_switch e = (ok, message)"
    by (cases "result_switch e")
  let ?reply = "if ok then CanView \<lparr>rv_name = name c, rv_examTitle = title e,
       rv_score = score c, rv_totalMarks = total_marks c, rv_percentage = percentage_of c\<rparr>
     else CannotView message"
  have run: "result db token = Inr ?reply"
    using assms sub sw by (simp add: result_def)
  have cv: "canView ?reply = ok"
    by (simp add: canView_def)
  have m1: "result_mode e = ''private'' \<longrightarrow> canView ?reply"
    unfolding cv using sw by (auto simp: result_switch_def)
  have m2: "result_mode e = ''public'' \<longrightarrow> canView ?reply"
    unfolding cv using sw by (auto simp: result_switch_def)
  have m3: "result_mode e = ''after_publish'' \<longrightarrow>
            (canView ?reply \<longleftrightarrow> results_published e = 1) \<and>
            (results_published e \<noteq> 1 \<longrightarrow>
               ?reply = CannotView ''Results will be published by the administrator'')"
    unfolding cv using sw by (auto simp: result_switch_def split: if_splits)
  have m4: "result_mode e = ''admin_only'' \<longrightarrow> \<not> canView ?reply"
    unfolding cv using sw by (auto simp: result_switch_def)
  from run m1 m2 m3 m4 show "\<exists>reply. result db token = Inr reply \<and>
         (result_mode e = ''private'' \<longrightarrow> canView reply) \<and>
         (result_mode e = ''public'' \<longrightarrow> canView reply) \<and>
         (result_mode e = ''after_publish'' \<longrightarrow>
            (canView reply \<longleftrightarrow> results_published e = 1) \<and>
            (results_published e \<noteq> 1 \<longrightarrow>
               reply = CannotView ''Results will be published by the administrator'')) \<and>
         (result_mode e = ''admin_only'' \<longrightarrow> \<not> canView reply)"
    by blast
qed


theorem result_visibility_witness:
  "result_rows demo_submitted_db ''tok-1'' = [(demo_submitted_candidate, demo_exam)] \<and>
   is_submitted demo_submitted_candidate \<noteq> 0 \<and>
   result_mode demo_exam = ''after_publish'' \<and> results_published demo_exam \<noteq> 1 \<and>
   result demo_submitted_db ''tok-1'' =
     Inr (CannotView ''Results will be published by the administrator'')"
proof -
  have h: "result_rows demo_submitted_db ''tok-1'' = [(demo_submitted_candidate, demo_exam)]"
    by (simp add: result_rows_def demo_submitted_db_tables)
       (simp add: demo_submitted_candidate_def demo_candidate_def demo_exam_def)
  have s: "is_submitted demo_submitted_candidate \<noteq> 0"
    by (simp add: demo_submitted_candidate_def)
  have m: "result_mode demo_exam = ''after_publish''" and p: "results_published demo_exam \<noteq> 1"
    by (simp_all add: demo_exam_def)
  from result_visibility [OF h] s m p
  have "result demo_submitted_db ''tok-1'' =
     Inr (CannotView ''Results will be published by the administrator'')"
    by blast
  with h s m p show ?thesis by blast
qed

subsection \<open>The leaderboard\<close>

lemma leaderboard_order_total: "\<not> leaderboard_order a b \<Longrightarrow> leaderboard_order b a"
  by (auto simp: leaderboard_order_def)

lemma leaderboard_order_trans:
  "leaderboard_order a b \<Longrightarrow> leaderboard_order b c \<Longrightarrow> leaderboard_order a c"
  by (auto simp: leaderboard_order_def)

lemma mset_insert_row: "mset (insert_row precedes x xs) = add_mset x (mset xs)"
  by (induction xs) auto

lemma mset_order_by: "mset (order_by precedes xs) = mset xs"
  by (induction xs) (auto simp: mset_insert_row)

lemma set_insert_row: "set (insert_row precedes x xs) = insert x (set xs)"
  by (induction xs) auto

lemma sorted_insert_row:
  assumes total: "\<And>a b. \<not> precedes a b \<Longrightarrow> precedes b a"
    and trans: "\<And>a b c. precedes a b \<Longrightarrow> precedes b c \<Longrightarrow> precedes a c"
    and "sorted_wrt precedes xs"
  shows "sorted_wrt precedes (insert_row precedes x xs)"
  using assms(3)
proof (induction xs)
  case Nil
  then show ?case by simp
next
  case (Cons y ys)
  show ?case
  proof (cases "precedes x y")
    case True
    have "precedes x z" if "z \<in> set ys" for z
    proof -
      from Cons.prems that have "precedes y z" by simp
      with True show ?thesis by (rule trans)
    qed
    with True Cons.prems show ?thesis by simp
  next
    case False
    then have yx: "precedes y x" by (rule total)
    from Cons.prems have "sorted_wrt precedes ys" by simp
    then have "sorted_wrt precedes (insert_row precedes x ys)" by (rule Cons.IH)
    moreover from Cons.prems yx have "\<forall>z \<in> set (insert_row precedes x ys). precedes y z"
      by (simp add: set_insert_row)
    ultimately show ?thesis using False by simp
  qed
qed

lemma sorted_order_by:
  assumes "\<And>a b. \<not> precedes a b \<Longrightarrow> precedes b a"
    and "\<And>a b c. precedes a b \<Longrightarrow> precedes b c \<Longrightarrow> precedes a c"
  shows "sorted_wrt precedes (order_by precedes xs)"
proof (induction xs)
  case Nil
  then show ?case by simp
next
  case (Cons x xs)
  have "sorted_wrt precedes (insert_row precedes x (order_by precedes xs))"
    using assms(1) assms(2) Cons by (rule sorted_insert_row)
  then show ?case by simp
qed

lemma leaderboard_json_length: "length (leaderboard_json rows) = length rows"
  by (simp add: leaderboard_json_def)

lemma leaderboard_json_ranks: "map le_rank (leaderboard_json rows) = [1 ..< Suc (length rows)]"
proof -
  have "map le_rank (leaderboard_json rows) = map (\<lambda>p. Suc (fst p)) (enumerate 0 rows)"
    by (simp add: leaderboard_json_def case_prod_beta)
  also have "\<dots> = map Suc (map fst (enumerate 0 rows))"
    by (simp only: map_map comp_def)
  also have "\<dots> = [1 ..< Suc (length rows)]"
    by (simp only: map_fst_enumerate map_Suc_upt) simp
  finally show ?thesis .
qed

lemma leaderboard_json_nth:
  assumes "i < length rows"
  shows "leaderboard_json rows ! i =
     \<lparr>le_rank = i + 1, le_name = name (rows ! i), le_score = score (rows ! i),
      le_totalMarks = total_marks (rows ! i), le_percentage = percentage_of (rows ! i)\<rparr>"
  using assms by (simp add: leaderboard_json_def nth_enumerate_eq)


lemma board_leaderboard:
  "leaderboard board_db ''f2'' =
     Inr \<lparr>lb_examTitle = ''Finals'',
          lb_leaderboard =
            [\<lparr>le_rank = 1, le_name = ''cy'', le_score = Some 3, le_totalMarks = 3,
              le_percentage = 100\<rparr>,
             \<lparr>le_rank = 2, le_name = ''dan'', le_score = Some 2, le_totalMarks = 3,
              le_percentage = 6667 / 100\<rparr>,
             \<lparr>le_rank = 3, le_name = ''bea'', le_score = Some 2, le_totalMarks = 3,
              le_percentage = 6667 / 100\<rparr>,
             \<lparr>le_rank = 4, le_name = ''zed'', le_score = Some 0, le_totalMarks = 0,
              le_percentage = 0\<rparr>]\<rparr>"
  by code_simp

text \<open>
  C7. For the exam an exam code designates: the leaderboard is refused with
  \<open>LeaderboardUnavailable\<close> unless the result mode is \<open>public\<close>, or \<open>after_publish\<close> with
  \<open>results_published\<close> set; otherwise the reply lists exactly the exam's sessions with
  \<open>is_submitted = 1\<close> (as a multiset), in an order where an earlier row has a higher
  score, or the same score and an end_time not later, and the ranks are 1, 2, ..., N in
  that order.
\<close>

theorem leaderboard_ranking:
  assumes "find (\<lambda>e. exam_code e = toUpperCase examCode) (exams db) = Some exam"
  shows "(\<not> (result_mode exam = ''public'' \<or>
             result_mode exam = ''after_publish'' \<and> results_published exam \<noteq> 0) \<longrightarrow>
            leaderboard db examCode = Inl LeaderboardUnavailable) \<and>
    (result_mode exam = ''public'' \<or>
       result_mode exam = ''after_publish'' \<and> results_published exam \<noteq> 0 \<longrightarrow>
     (\<exists>rows entries.
        leaderboard db examCode =
          Inr \<lparr>lb_examTitle = title exam, lb_leaderboard = entries\<rparr> \<and>
        mset rows =
          mset (filter (\<lambda>c. c_exam_id c = e_id exam \<and> is_submitted c = 1) (candidates db)) \<and>
        sorted_wrt (\<lambda>a b. score b < score a \<or> score a = score b \<and> end_time a \<le> end_time b)
          rows \<and>
        length entries = length rows \<and>
        map le_rank entries = [1 ..< Suc (length rows)] \<and>
        (\<forall>i < length rows.
           le_name (entries ! i) = name (rows ! i) \<and>
           le_score (entries ! i) = score (rows ! i) \<and>
           le_totalMarks (entries ! i) = total_marks (rows ! i))))"
proof (intro conjI impI)
  assume "\<not> (result_mode exam = ''public'' \<or>
             result_mode exam = ''after_publish'' \<and> results_published exam \<noteq> 0)"
  with assms show "leaderboard db examCode = Inl LeaderboardUnavailable"
    by (simp add: leaderboard_def leaderboard_available_def)
next
  assume open_board: "result_mode exam = ''public'' \<or>
       result_mode exam = ''after_publish'' \<and> results_published exam \<noteq> 0"
  let ?rows = "leaderboard_rows db exam"
  let ?entries = "leaderboard_json ?rows"
  have run: "leaderboard db examCode =
      Inr \<lparr>lb_examTitle = title exam, lb_leaderboard = ?entries\<rparr>"
    using assms open_board by (auto simp: leaderboard_def leaderboard_available_def)
  have perm: "mset ?rows =
      mset (filter (\<lambda>c. c_exam_id c = e_id exam \<and> is_submitted c = 1) (candidates db))"
    by (simp add: leaderboard_rows_def mset_order_by)
  have "sorted_wrt leaderboard_order ?rows"
    unfolding leaderboard_rows_def
    by (rule sorted_order_by) (erule leaderboard_order_total, erule (1) leaderboard_order_trans)
  then have sorted:
    "sorted_wrt (\<lambda>a b. score b < score a \<or> score a = score b \<and> end_time a \<le> end_time b) ?rows"
    by (simp add: leaderboard_order_def[abs_def])
  have fields: "\<forall>i < length ?rows.
           le_name (?entries ! i) = name (?rows ! i) \<and>
           le_score (?entries ! i) = score (?rows ! i) \<and>
           le_totalMarks (?entries ! i) = total_marks (?rows ! i)"
    by (simp add: leaderboard_json_nth)
  from run perm sorted fields leaderboard_json_length[of ?rows] leaderboard_json_ranks[of ?rows]
  show "\<exists>rows entries.
        leaderboard db examCode =
          Inr \<lparr>lb_examTitle = title exam, lb_leaderboard = entries\<rparr> \<and>
        mset rows =
          mset (filter (\<lambda>c. c_exam_id c = e_id exam \<and> is_submitted c = 1) (candidates db)) \<and>
        sorted_wrt (\<lambda>a b. score b < score a \<or> score a = score b \<and> end_time a \<le> end_time b)
          rows \<and>
        length entries = length rows \<and>
        map le_rank entries = [1 ..< Suc (length rows)] \<and>
        (\<forall>i < length rows.
           le_name (entries ! i) = name (rows ! i) \<and>
           le_score (entries ! i) = score (rows ! i) \<and>
           le_totalMarks (entries ! i) = total_marks (rows ! i))"
    by blast
qed

theorem leaderboard_ranking_witness:
  "find (\<lambda>e. exam_code e = toUpperCase ''f2'') (exams board_db) = Some board_exam \<and>
   result_mode board_exam = ''public'' \<and>
   (\<exists>rows entries.
      leaderboard board_db ''f2'' =
        Inr \<lparr>lb_examTitle = title board_exam, lb_leaderboard = entries\<rparr> \<and>
      mset rows =
        mset (filter (\<lambda>c. c_exam_id c = e_id board_exam \<and> is_submitted c = 1)
               (candidates board_db)) \<and>
      sorted_wrt (\<lambda>a b. score b < score a \<or> score a = score b \<and> end_time a \<le> end_time b)
        rows \<and>
      length entries = length rows \<and>
      map le_rank entries = [1 ..< Suc (length rows)])"
proof -
  have h: "find (\<lambda>e. exam_code e = toUpperCase ''f2'') (exams board_db) = Some board_exam"
    by (simp add: board_defs string_defs)
  have m: "result_mode board_exam = ''public''"
    by (simp add: board_exam_def)
  from leaderboard_ranking [OF h] m h show ?thesis
    by blast
qed

subsection \<open>The percentage\<close>

lemma toFixed2_two_decimals: "of_int \<lfloor>toFixed2 x * 100\<rfloor> = toFixed2 x * 100"
  by (simp add: toFixed2_def)

lemma toFixed2_near: "\<bar>toFixed2 x - x\<bar> \<le> 1 / 200"
proof -
  have *: "\<bar>of_int \<lfloor>y * 100 + 1 / 2\<rfloor> / 100 - y\<bar> \<le> 1 / 200" for y :: rat
  proof -
    define k where "k = \<lfloor>y * 100 + 1 / 2\<rfloor>"
    have lo: "of_int k \<le> y * 100 + 1 / 2"
      unfolding k_def by (rule of_int_floor_le)
    have hi: "y * 100 + 1 / 2 < of_int k + 1"
      unfolding k_def using floor_le_iff[of "y * 100 + 1 / 2" "\<lfloor>y * 100 + 1 / 2\<rfloor>"] by simp
    from lo hi have "\<bar>of_int k / 100 - y\<bar> \<le> 1 / 200"
      by linarith
    then show ?thesis by (simp only: k_def)
  qed
  show ?thesis
  proof (cases "x < 0")
    case True
    have "\<bar>toFixed2 x - x\<bar> = \<bar>of_int \<lfloor>(- x) * 100 + 1 / 2\<rfloor> / 100 - (- x)\<bar>"
      using True by (simp add: toFixed2_def abs_minus_commute add.commute)
    also have "\<dots> \<le> 1 / 200" by (rule *)
    finally show ?thesis .
  next
    case False
    then show ?thesis using *[of x] by (simp add: toFixed2_def)
  qed
qed

text \<open>\<open>to_double\<close> rounds to a nearest double: the error is at most half a unit in the last
  place, and at most \<open>2 ^ - 53\<close> of the value in the normal range.\<close>

lemma round_half_even_near: "\<bar>of_int (round_half_even y) - y\<bar> \<le> 1 / 2"
proof -
  define n where "n = \<lfloor>y\<rfloor>"
  have lo: "of_int n \<le> y"
    unfolding n_def by (rule of_int_floor_le)
  have hi: "y < of_int n + 1"
    unfolding n_def using floor_le_iff[of y "\<lfloor>y\<rfloor>"] by simp
  have "round_half_even y = n \<and> y - of_int n \<le> 1 / 2 \<or>
        round_half_even y = n + 1 \<and> 1 / 2 \<le> y - of_int n"
    by (auto simp: round_half_even_def Let_def n_def)
  then show ?thesis
  proof (elim disjE conjE)
    assume eq: "round_half_even y = n" and "y - of_int n \<le> 1 / 2"
    with lo have "\<bar>of_int n - y\<bar> \<le> 1 / 2" by linarith
    then show ?thesis by (simp only: eq)
  next
    assume eq: "round_half_even y = n + 1" and "1 / 2 \<le> y - of_int n"
    with hi have "\<bar>(of_int n + 1) - y\<bar> \<le> 1 / 2" by linarith
    then show ?thesis by (simp add: eq)
  qed
qed

lemma pow2_pos: "0 < pow2 e"
  by (simp add: pow2_def)

lemma to_double_nearest:
  "\<bar>to_double x - x\<bar> \<le> pow2 (max (binade \<bar>x\<bar> - 52) (- 1074)) / 2"
proof (cases "x = 0")
  case True
  then show ?thesis using pow2_pos[of "max (binade \<bar>x\<bar> - 52) (- 1074)"]
    by (simp add: to_double_def)
next
  case False
  define u where "u = pow2 (max (binade \<bar>x\<bar> - 52) (- 1074))"
  define m where "m = round_half_even (\<bar>x\<bar> / u)"
  have u: "0 < u"
    unfolding u_def by (rule pow2_pos)
  have td: "to_double x = sgn x * of_int m * u"
    using False by (simp add: to_double_def Let_def u_def m_def)
  have "\<bar>of_int m - \<bar>x\<bar> / u\<bar> \<le> 1 / 2"
    unfolding m_def by (rule round_half_even_near)
  then have "\<bar>of_int m - \<bar>x\<bar> / u\<bar> * u \<le> 1 / 2 * u"
    using u by (simp add: mult_right_mono)
  moreover have "\<bar>of_int m - \<bar>x\<bar> / u\<bar> * u = \<bar>of_int m * u - \<bar>x\<bar>\<bar>"
  proof -
    have "\<bar>of_int m - \<bar>x\<bar> / u\<bar> * u = \<bar>(of_int m - \<bar>x\<bar> / u) * u\<bar>"
      using u by (simp add: abs_mult)
    also have "(of_int m - \<bar>x\<bar> / u) * u = of_int m * u - \<bar>x\<bar>"
      using u by (simp add: left_diff_distrib)
    finally show ?thesis .
  qed
  moreover have "\<bar>to_double x - x\<bar> = \<bar>of_int m * u - \<bar>x\<bar>\<bar>"
  proof (cases "0 < x")
    case True
    then show ?thesis by (simp add: td)
  next
    case neg: False
    with False have "x < 0" by simp
    then have "to_double x - x = - (of_int m * u - \<bar>x\<bar>)"
      by (simp add: td)
    then show ?thesis by (simp only: abs_minus_cancel)
  qed
  ultimately show ?thesis
    by (simp add: u_def)
qed

lemma binade_le:
  assumes "0 < a"
  shows "pow2 (binade a) \<le> a"
proof (cases "1 \<le> a")
  case True
  then have pos: "0 < \<lfloor>a\<rfloor>" by simp
  from bitlen_bounds[OF pos] have "2 ^ nat (bitlen \<lfloor>a\<rfloor> - 1) \<le> \<lfloor>a\<rfloor>" ..
  then have "(of_int (2 ^ nat (bitlen \<lfloor>a\<rfloor> - 1)) :: rat) \<le> of_int \<lfloor>a\<rfloor>"
    by (simp only: of_int_le_iff)
  also have "\<dots> \<le> a" by (rule of_int_floor_le)
  finally have "(2 :: rat) ^ nat (bitlen \<lfloor>a\<rfloor> - 1) \<le> a" by simp
  moreover from pos have "1 \<le> bitlen \<lfloor>a\<rfloor>"
    using bitlen_eq_zero_iff[of "\<lfloor>a\<rfloor>"] bitlen_nonneg[of "\<lfloor>a\<rfloor>"] by linarith
  ultimately show ?thesis using True
    by (simp add: binade_def pow2_def)
next
  case False
  define k where "k = \<lceil>1 / a\<rceil> - 1"
  from False assms have "1 < 1 / a" by simp
  then have "1 < \<lceil>1 / a\<rceil>" by (simp add: less_ceiling_iff)
  then have pos: "0 < k" by (simp add: k_def)
  from bitlen_bounds[OF pos] have "k < 2 ^ nat (bitlen k)" ..
  then have "\<lceil>1 / a\<rceil> \<le> 2 ^ nat (bitlen k)" by (simp add: k_def)
  then have "1 / a \<le> of_int (2 ^ nat (bitlen k))"
    by (simp only: ceiling_le_iff)
  then have "1 / a \<le> 2 ^ nat (bitlen k)"
    by simp
  with assms have "1 / 2 ^ nat (bitlen k) \<le> a"
    by (simp add: field_simps)
  moreover from pos have "0 < bitlen k"
    using bitlen_eq_zero_iff[of k] bitlen_nonneg[of k] by linarith
  ultimately show ?thesis using False
    by (simp add: binade_def pow2_def k_def)
qed

lemma pow2_add: "pow2 (i + j) = pow2 i * pow2 j"
proof -
  have "pow2 e = 2 powi e" for e
    by (simp add: pow2_def power_int_def field_simps)
  then show ?thesis by (simp add: power_int_add)
qed

lemma pow2_mono: "i \<le> j \<Longrightarrow> pow2 i \<le> pow2 j"
proof -
  assume "i \<le> j"
  have "pow2 j = pow2 i * pow2 (j - i)"
    using pow2_add[of i "j - i"] by simp
  moreover from \<open>i \<le> j\<close> have "1 \<le> pow2 (j - i)"
    by (simp add: pow2_def)
  ultimately show ?thesis using pow2_pos[of i] by simp
qed

lemma to_double_relative:
  assumes "pow2 (- 1022) \<le> \<bar>x\<bar>"
  shows "\<bar>to_double x - x\<bar> \<le> \<bar>x\<bar> / 2 ^ 53"
proof -
  from assms pow2_pos[of "- 1022"] have pos: "0 < \<bar>x\<bar>" by linarith
  have half: "pow2 (- 52) / 2 = 1 / 2 ^ 53"
    by (simp add: pow2_def)
  have "pow2 (max (binade \<bar>x\<bar> - 52) (- 1074)) \<le> \<bar>x\<bar> * pow2 (- 52)"
  proof (cases "- 1074 \<le> binade \<bar>x\<bar> - 52")
    case True
    then have "max (binade \<bar>x\<bar> - 52) (- 1074) = binade \<bar>x\<bar> - 52" by simp
    moreover have "pow2 (binade \<bar>x\<bar> - 52) = pow2 (binade \<bar>x\<bar>) * pow2 (- 52)"
      using pow2_add[of "binade \<bar>x\<bar>" "- 52"] by simp
    moreover have "pow2 (binade \<bar>x\<bar>) * pow2 (- 52) \<le> \<bar>x\<bar> * pow2 (- 52)"
      using binade_le[OF pos] pow2_pos[of "- 52"] by (simp add: mult_right_mono)
    ultimately show ?thesis by simp
  next
    case False
    then have "max (binade \<bar>x\<bar> - 52) (- 1074) = - 1074" by simp
    moreover have "pow2 (- 1074) = pow2 (- 1022) * pow2 (- 52)"
      using pow2_add[of "- 1022" "- 52"] by simp
    moreover have "pow2 (- 1022) * pow2 (- 52) \<le> \<bar>x\<bar> * pow2 (- 52)"
      using assms pow2_pos[of "- 52"] by (simp add: mult_right_mono)
    ultimately show ?thesis by simp
  qed
  then have "pow2 (max (binade \<bar>x\<bar> - 52) (- 1074)) / 2 \<le> \<bar>x\<bar> * (pow2 (- 52) / 2)"
    by simp
  then have "pow2 (max (binade \<bar>x\<bar> - 52) (- 1074)) / 2 \<le> \<bar>x\<bar> / 2 ^ 53"
    by (simp only: half) simp
  with to_double_nearest[of x] show ?thesis by linarith
qed

lemma percentage_of_rounded:
  "(total_marks c = 0 \<longrightarrow> percentage_of c = 0) \<and>
   (total_marks c > 0 \<longrightarrow>
      percentage_of c =
        toFixed2 (js_mul (js_div (js_number (score c)) (to_double (of_int (total_marks c)))) 100) \<and>
      of_int \<lfloor>percentage_of c * 100\<rfloor> = percentage_of c * 100 \<and>
      \<bar>percentage_of c -
         js_mul (js_div (js_number (score c)) (to_double (of_int (total_marks c)))) 100\<bar>
        \<le> 1 / 200)"
  using toFixed2_near[of
      "js_mul (js_div (js_number (score c)) (to_double (of_int (total_marks c)))) 100"]
    toFixed2_two_decimals[of
      "js_mul (js_div (js_number (score c)) (to_double (of_int (total_marks c)))) 100"]
  by (simp add: percentage_of_def)

lemma result_CanView_row:
  assumes "result db token = Inr (CanView v)"
  shows "\<exists>c. rv_score v = score c \<and> rv_totalMarks v = total_marks c \<and>
             rv_percentage v = percentage_of c"
proof (cases "result_rows db token")
  case Nil
  with assms show ?thesis by (simp add: result_def)
next
  case (Cons p rows)
  obtain c e where p: "p = (c, e)" by (cases p)
  obtain ok message where sw: "result_switch e = (ok, message)"
    by (cases "result_switch e")
  from assms Cons p sw have "v = \<lparr>rv_name = name c, rv_examTitle = title e,
       rv_score = score c, rv_totalMarks = total_marks c, rv_percentage = percentage_of c\<rparr>"
    by (simp add: result_def split: if_splits)
  then show ?thesis by auto
qed

lemma leaderboard_entry_row:
  assumes "leaderboard db examCode = Inr reply" and "entry \<in> set (lb_leaderboard reply)"
  shows "\<exists>c. le_score entry = score c \<and> le_totalMarks entry = total_marks c \<and>
             le_percentage entry = percentage_of c"
proof -
  from assms(1) obtain rows where "lb_leaderboard reply = leaderboard_json rows"
    by (auto simp: leaderboard_def split: option.splits if_splits)
  with assms(2) obtain i where "i < length rows" "entry = leaderboard_json rows ! i"
    by (auto simp: in_set_conv_nth leaderboard_json_length)
  then show ?thesis by (auto simp: leaderboard_json_nth)
qed

text \<open>The boundary case by evaluation: 23 of 160 marks are printed as \<open>14.37\<close>, where the
  exact quotient \<open>14.375\<close> would round half up to \<open>14.38\<close>.\<close>

lemma tie_double_product:
  "toFixed2 (js_mul (js_div (to_double 23) (to_double 160)) 100) = 1437 / 100"
  by code_simp

lemma tie_percentage:
  "percentage_of \<lparr>c_id = 1, name = ''gil'', email = ''gil@example.com'', c_exam_id = 3,
         session_token = ''tok-gil'', start_time = 100, end_time = Some 900,
         score = Some 23, total_marks = 160, is_submitted = 1\<rparr> = 1437 / 100"
  by (simp add: percentage_of_def js_number_def tie_double_product)

lemma tie_exact_quotient: "toFixed2 (23 / 160 * 100) = 1438 / 100"
  by (simp add: toFixed2_def floor_eq_iff)

text \<open>
  C8. In a visible result and in every leaderboard entry, the percentage is 0 when
  total_marks is 0 (no division takes place), and for a positive total_marks it is the
  value of \<^verbatim>\<open>(score / total_marks) * 100\<close>, computed as the handlers compute it in
  doubles, rounded to two decimals by \<^verbatim>\<open>toFixed(2)\<close>: a number of at most two decimals
  within \<open>0.005\<close> of that product.
\<close>

theorem percentage_exposed:
  "(result db token = Inr (CanView v) \<longrightarrow>
      (rv_totalMarks v = 0 \<longrightarrow> rv_percentage v = 0) \<and>
      (rv_totalMarks v > 0 \<longrightarrow>
         rv_percentage v = toFixed2 (js_mul (js_div (js_number (rv_score v)) (to_double (of_int (rv_totalMarks v)))) 100) \<and>
         of_int \<lfloor>rv_percentage v * 100\<rfloor> = rv_percentage v * 100 \<and>
         \<bar>rv_percentage v - js_mul (js_div (js_number (rv_score v)) (to_double (of_int (rv_totalMarks v)))) 100\<bar>
           \<le> 1 / 200)) \<and>
   (leaderboard db examCode = Inr reply \<longrightarrow>
      (\<forall>entry \<in> set (lb_leaderboard reply).
         (le_totalMarks entry = 0 \<longrightarrow> le_percentage entry = 0) \<and>
         (le_totalMarks entry > 0 \<longrightarrow>
            le_percentage entry =
              toFixed2 (js_mul (js_div (js_number (le_score entry))
                (to_double (of_int (le_totalMarks entry)))) 100) \<and>
            of_int \<lfloor>le_percentage entry * 100\<rfloor> = le_percentage entry * 100 \<and>
            \<bar>le_percentage entry - js_mul (js_div (js_number (le_score entry))
                (to_double (of_int (le_totalMarks entry)))) 100\<bar>
              \<le> 1 / 200)))"
proof (rule conjI)
  show "result db token = Inr (CanView v) \<longrightarrow>
      (rv_totalMarks v = 0 \<longrightarrow> rv_percentage v = 0) \<and>
      (rv_totalMarks v > 0 \<longrightarrow>
         rv_percentage v = toFixed2 (js_mul (js_div (js_number (rv_score v)) (to_double (of_int (rv_totalMarks v)))) 100) \<and>
         of_int \<lfloor>rv_percentage v * 100\<rfloor> = rv_percentage v * 100 \<and>
         \<bar>rv_percentage v - js_mul (js_div (js_number (rv_score v)) (to_double (of_int (rv_totalMarks v)))) 100\<bar>
           \<le> 1 / 200)"
  proof
    assume "result db token = Inr (CanView v)"
    from result_CanView_row[OF this] obtain c where
      c: "rv_score v = score c" "rv_totalMarks v = total_marks c"
         "rv_percentage v = percentage_of c"
      by blast
    show "(rv_totalMarks v = 0 \<longrightarrow> rv_percentage v = 0) \<and>
      (rv_totalMarks v > 0 \<longrightarrow>
         rv_percentage v = toFixed2 (js_mul (js_div (js_number (rv_score v)) (to_double (of_int (rv_totalMarks v)))) 100) \<and>
         of_int \<lfloor>rv_percentage v * 100\<rfloor> = rv_percentage v * 100 \<and>
         \<bar>rv_percentage v - js_mul (js_div (js_number (rv_score v)) (to_double (of_int (rv_totalMarks v)))) 100\<bar>
           \<le> 1 / 200)"
      unfolding c by (rule percentage_of_rounded)
  qed
  show "leaderboard db examCode = Inr reply \<longrightarrow>
      (\<forall>entry \<in> set (lb_leaderboard reply).
         (le_totalMarks entry = 0 \<longrightarrow> le_percentage entry = 0) \<and>
         (le_totalMarks entry > 0 \<longrightarrow>
            le_percentage entry =
              toFixed2 (js_mul (js_div (js_number (le_score entry))
                (to_double (of_int (le_totalMarks entry)))) 100) \<and>
            of_int \<lfloor>le_percentage entry * 100\<rfloor> = le_percentage entry * 100 \<and>
            \<bar>le_percentage entry - js_mul (js_div (js_number (le_score entry))
                (to_double (of_int (le_totalMarks entry)))) 100\<bar>
              \<le> 1 / 200))"
  proof (intro impI ballI)
    fix entry
    assume "leaderboard db examCode = Inr reply" and "entry \<in> set (lb_leaderboard reply)"
    from leaderboard_entry_row[OF this] obtain c where
      c: "le_score entry = score c" "le_totalMarks entry = total_marks c"
         "le_percentage entry = percentage_of c"
      by blast
    show "(le_totalMarks entry = 0 \<longrightarrow> le_percentage entry = 0) \<and>
         (le_totalMarks entry > 0 \<longrightarrow>
            le_percentage entry =
              toFixed2 (js_mul (js_div (js_number (le_score entry))
                (to_double (of_int (le_totalMarks entry)))) 100) \<and>
            of_int \<lfloor>le_percentage entry * 100\<rfloor> = le_percentage entry * 100 \<and>
            \<bar>le_percentage entry - js_mul (js_div (js_number (le_score entry))
                (to_double (of_int (le_totalMarks entry)))) 100\<bar>
              \<le> 1 / 200)"
      unfolding c by (rule percentage_of_rounded)
  qed
qed

theorem percentage_exposed_witness:
  "result tie_db ''tok-gil'' = Inr (CanView gil_view) \<and>
   rv_totalMarks gil_view > 0 \<and>
   rv_percentage gil_view = 1437 / 100 \<and>
   rv_percentage gil_view =
     toFixed2 (js_mul (js_div (js_number (rv_score gil_view))
                 (to_double (of_int (rv_totalMarks gil_view)))) 100) \<and>
   leaderboard tie_db ''t3'' = Inr \<lparr>lb_examTitle = ''Ties'', lb_leaderboard = [gil_entry]\<rparr> \<and>
   le_totalMarks gil_entry > 0 \<and>
   le_percentage gil_entry = 1437 / 100 \<and>
   le_percentage gil_entry =
     toFixed2 (js_mul (js_div (js_number (le_score gil_entry))
                 (to_double (of_int (le_totalMarks gil_entry)))) 100) \<and>
   \<bar>le_percentage gil_entry -
      js_mul (js_div (js_number (le_score gil_entry))
        (to_double (of_int (le_totalMarks gil_entry)))) 100\<bar> \<le> 1 / 200"
proof -
  have r: "result tie_db ''tok-gil'' = Inr (CanView gil_view)"
    by (simp add: result_def result_rows_def result_switch_def gil_view_def tie_db_def
        tie_exam_def percentage_of_def js_number_def tie_double_product)
  have l: "leaderboard tie_db ''t3'' =
      Inr \<lparr>lb_examTitle = ''Ties'', lb_leaderboard = [gil_entry]\<rparr>"
    by (simp add: leaderboard_def leaderboard_available_def leaderboard_rows_def
        leaderboard_json_def gil_entry_def tie_db_def tie_exam_def string_defs
        percentage_of_def js_number_def tie_double_product)
  have t: "rv_totalMarks gil_view > 0" and p: "rv_percentage gil_view = 1437 / 100"
    by (simp_all add: gil_view_def)
  have t': "le_totalMarks gil_entry > 0" and p': "le_percentage gil_entry = 1437 / 100"
    by (simp_all add: gil_entry_def)
  have m: "gil_entry \<in> set (lb_leaderboard \<lparr>lb_examTitle = ''Ties'', lb_leaderboard = [gil_entry]\<rparr>)"
    by simp
  from percentage_exposed [of tie_db "''tok-gil''" gil_view "''t3''"
      "\<lparr>lb_examTitle = ''Ties'', lb_leaderboard = [gil_entry]\<rparr>"] r l t t' m
  have "rv_percentage gil_view =
     toFixed2 (js_mul (js_div (js_number (rv_score gil_view))
                 (to_double (of_int (rv_totalMarks gil_view)))) 100)"
    and "le_percentage gil_entry =
     toFixed2 (js_mul (js_div (js_number (le_score gil_entry))
                 (to_double (of_int (le_totalMarks gil_entry)))) 100)"
    and "\<bar>le_percentage gil_entry -
      js_mul (js_div (js_number (le_score gil_entry))
        (to_double (of_int (le_totalMarks gil_entry)))) 100\<bar> \<le> 1 / 200"
    by blast+
  with r l t t' p p' show ?thesis by blast
qed

subsection \<open>Deactivated exams\<close>

lemma find_map_same:
  assumes "\<And>x. P (f x) = P x"
  shows "find P (map f xs) = map_option f (find P xs)"
  using assms by (induction xs) auto

lemma toggle_active_exams:
  "\<exists>g. exams (toggle_active db i) = map (\<lambda>e. e\<lparr>is_active := g e\<rparr>) (exams db) \<and>
       candidates (toggle_active db i) = candidates db"
proof (cases "find (\<lambda>e. e_id e = i) (exams db)")
  case None
  then have "exams (toggle_active db i) = map (\<lambda>e. e\<lparr>is_active := is_active e\<rparr>) (exams db)"
    by (simp add: toggle_active_def)
  moreover from None have "candidates (toggle_active db i) = candidates db"
    by (simp add: toggle_active_def)
  ultimately show ?thesis by (intro exI[of _ is_active]) simp
next
  case (Some x)
  let ?g = "\<lambda>e. if e_id e = i then (if is_active x \<noteq> 0 then 0 else 1) else is_active e"
  have "(\<lambda>e. if e_id e = i then e\<lparr>is_active := (if is_active x \<noteq> 0 then 0 else 1)\<rparr> else e)
       = (\<lambda>e. e\<lparr>is_active := ?g e\<rparr>)"
    by (rule ext) simp
  with Some have "exams (toggle_active db i) = map (\<lambda>e. e\<lparr>is_active := ?g e\<rparr>) (exams db)"
    by (simp add: toggle_active_def)
  moreover from Some have "candidates (toggle_active db i) = candidates db"
    by (simp add: toggle_active_def)
  ultimately show ?thesis by (intro exI[of _ ?g]) simp
qed

lemma leaderboard_toggle_active:
  "leaderboard (toggle_active db i) examCode = leaderboard db examCode"
proof -
  from toggle_active_exams[of db i] obtain g where
    ex: "exams (toggle_active db i) = map (\<lambda>e. e\<lparr>is_active := g e\<rparr>) (exams db)" and
    cs: "candidates (toggle_active db i) = candidates db"
    by blast
  have f: "find (\<lambda>e. exam_code e = toUpperCase examCode) (exams (toggle_active db i)) =
      map_option (\<lambda>e. e\<lparr>is_active := g e\<rparr>)
        (find (\<lambda>e. exam_code e = toUpperCase examCode) (exams db))"
    unfolding ex by (rule find_map_same) simp
  show ?thesis
    by (simp add: leaderboard_def f cs leaderboard_available_def leaderboard_rows_def
        split: option.splits)
qed

text \<open>
  C10. The leaderboard look-up does not read \<open>is_active\<close>: for an active exam whose result
  mode permits the leaderboard (exam codes and ids being unique), after the operator has
  deactivated the exam the leaderboard request returns the same reply as before, whereas
  \<^verbatim>\<open>POST /start\<close> for the same code is refused with \<open>ExamNotFound\<close>.
\<close>

theorem leaderboard_ignores_is_active:
  assumes "find (\<lambda>e. exam_code e = toUpperCase examCode) (exams db) = Some exam"
    and "is_active exam \<noteq> 0"
    and "result_mode exam = ''public'' \<or>
         result_mode exam = ''after_publish'' \<and> results_published exam \<noteq> 0"
    and "distinct (map exam_code (exams db))" and "distinct (map e_id (exams db))"
    and "n \<noteq> []" and "emailRegex_test em" and "examCode \<noteq> []"
  shows "(\<exists>reply. leaderboard (toggle_active db (e_id exam)) examCode = Inr reply \<and>
            leaderboard db examCode = Inr reply) \<and>
         start (toggle_active db (e_id exam)) sess now uuid (Some n) (Some em) (Some examCode) =
           (toggle_active db (e_id exam), sess, Inl ExamNotFound)"
proof -
  let ?db' = "toggle_active db (e_id exam)"
  have "\<exists>reply. leaderboard db examCode = Inr reply"
    using assms(1,3) by (auto simp: leaderboard_def leaderboard_available_def)
  then have board: "\<exists>reply. leaderboard ?db' examCode = Inr reply \<and>
            leaderboard db examCode = Inr reply"
    by (simp add: leaderboard_toggle_active)
  from find_Some_holds[OF assms(1)] have mem: "exam \<in> set (exams db)"
    and code: "exam_code exam = toUpperCase examCode"
    by simp_all
  have unique: "e = exam" if "e \<in> set (exams db)" "exam_code e = toUpperCase examCode" for e
    using that mem code assms(4) by (metis distinct_map inj_on_def)
  have unique_id: "e = exam" if "e \<in> set (exams db)" "e_id e = e_id exam" for e
    using that mem assms(5) by (metis distinct_map inj_on_def)
  from mem have "find (\<lambda>e. e_id e = e_id exam) (exams db) \<noteq> None"
    by (auto simp: find_None_iff)
  then obtain x where x: "find (\<lambda>e. e_id e = e_id exam) (exams db) = Some x"
    by auto
  from find_Some_holds[OF x] have "x = exam"
    by (simp add: unique_id)
  with x assms(2) have exams': "exams ?db' =
      map (\<lambda>e. if e_id e = e_id exam then e\<lparr>is_active := 0\<rparr> else e) (exams db)"
    by (simp add: toggle_active_def)
  have "\<not> (exam_code e' = toUpperCase examCode \<and> is_active e' = 1)"
    if "e' \<in> set (exams ?db')" for e'
  proof -
    from that obtain e where e: "e \<in> set (exams db)"
      and e': "e' = (if e_id e = e_id exam then e\<lparr>is_active := 0\<rparr> else e)"
      unfolding exams' by auto
    show ?thesis
    proof (cases "e_id e = e_id exam")
      case True
      with e' show ?thesis by simp
    next
      case False
      with e have "exam_code e \<noteq> toUpperCase examCode"
        using unique by blast
      with False e' show ?thesis by simp
    qed
  qed
  then have "find (\<lambda>e. exam_code e = toUpperCase examCode \<and> is_active e = 1) (exams ?db') = None"
    by (simp add: find_None_iff)
  moreover have "em \<noteq> []"
    using assms(7) by (auto simp: emailRegex_test_def)
  ultimately have "start ?db' sess now uuid (Some n) (Some em) (Some examCode) =
           (?db', sess, Inl ExamNotFound)"
    using assms(6-8) by (simp add: start_valid start_session_def)
  with board show ?thesis by blast
qed

theorem leaderboard_ignores_is_active_witness:
  "find (\<lambda>e. exam_code e = toUpperCase ''f2'') (exams board_db) = Some board_exam \<and>
   is_active board_exam \<noteq> 0 \<and> result_mode board_exam = ''public'' \<and>
   distinct (map exam_code (exams board_db)) \<and> distinct (map e_id (exams board_db)) \<and>
   emailRegex_test ''flo@example.com'' \<and>
   (\<exists>reply. leaderboard (toggle_active board_db (e_id board_exam)) ''f2'' = Inr reply \<and>
      leaderboard board_db ''f2'' = Inr reply) \<and>
   start (toggle_active board_db (e_id board_exam)) no_session 700 ''tok-9''
     (Some ''Flo'') (Some ''flo@example.com'') (Some ''f2'') =
     (toggle_active board_db (e_id board_exam), no_session, Inl ExamNotFound)"
proof -
  have h1: "find (\<lambda>e. exam_code e = toUpperCase ''f2'') (exams board_db) = Some board_exam"
    by (simp add: board_defs string_defs)
  have h2: "is_active board_exam \<noteq> 0"
    by (simp add: board_exam_def)
  have m: "result_mode board_exam = ''public''"
    by (simp add: board_exam_def)
  then have h3: "result_mode board_exam = ''public'' \<or>
      result_mode board_exam = ''after_publish'' \<and> results_published board_exam \<noteq> 0"
    by (rule disjI1)
  have h4: "distinct (map exam_code (exams board_db))"
    and h5: "distinct (map e_id (exams board_db))"
    by (simp_all add: board_defs)
  have h6: "''Flo'' \<noteq> []" and h8: "''f2'' \<noteq> []"
    by simp_all
  have h7: "emailRegex_test ''flo@example.com''"
    by (simp add: emailRegex_test_def isWhiteSpace_def)
  from leaderboard_ignores_is_active [OF h1 h2 h3 h4 h5 h6 h7 h8, of no_session 700 "''tok-9''"]
    h1 h2 m h4 h5 h7
  show ?thesis by blast
qed


end
